theory Spec2Isabelle
  imports Complex_Main
begin

section \<open>Errors, JSON documents and dynamic Go values\<close>

text \<open>
  A Go \<open>error\<close> is identified with the text its \<open>Error()\<close> method returns, so
  \<open>fmt.Errorf("... %s", x)\<close> is string concatenation and \<open>%w\<close> splices the wrapped
  error's text. A function returning \<open>error\<close> returns \<open>error option\<close>
  (\<open>None\<close> is \<open>nil\<close>); a function returning \<open>(T, error)\<close> returns \<open>error + T\<close>.
\<close>

type_synonym error = string

text \<open>
  JSON text is abstracted by its parse tree. Object members keep their document order
  (duplicates included), strings are the decoded Go strings, numbers the real they denote.
\<close>

datatype json =
    JNull
  | JBool bool
  | JNum real
  | JStr string
  | JArr "json list"
  | JObj "(string \<times> json) list"

text \<open>
  A \<open>[]byte\<close> handed to \<open>json.Unmarshal\<close>: no bytes at all, bytes that are not
  JSON (carrying the syntax error the decoder reports for them), or the encoding of a
  document.
\<close>

datatype payload = Empty | Garbage string | Doc json

definition checkValid :: "payload \<Rightarrow> error + json" where
  "checkValid data =
     (case data of
        Empty \<Rightarrow> Inl ''unexpected end of JSON input''
      | Garbage msg \<Rightarrow> Inl msg
      | Doc j \<Rightarrow> Inr j)"

text \<open>
  A value held in an \<open>interface{}\<close>. The first six constructors are exactly the values
  \<open>encoding/json\<close> produces when it decodes into an \<open>interface{}\<close>; \<open>GOther\<close> is any
  other Go value, described by what \<open>json.Marshal\<close> does with it (\<open>Inr j\<close>: it encodes
  as \<open>j\<close>, as the int \<open>5\<close> does; \<open>Inl e\<close>: it is refused with error \<open>e\<close>, as a
  channel or a NaN is).
  A \<open>map[string]interface{}\<close> is an association list; identity of lists is finer than
  equality of maps.
\<close>

datatype goval =
    GNil
  | GBool bool
  | GFloat64 real
  | GString string
  | GSlice "goval list"
  | GMap "(string \<times> goval) list"
  | GOther "error + json"

fun of_json :: "json \<Rightarrow> goval" where
  "of_json JNull = GNil"
| "of_json (JBool b) = GBool b"
| "of_json (JNum r) = GFloat64 r"
| "of_json (JStr s) = GString s"
| "of_json (JArr xs) = GSlice (map of_json xs)"
| "of_json (JObj kvs) = GMap (map (\<lambda>(k, v). (k, of_json v)) kvs)"

fun json_kind :: "json \<Rightarrow> string" where
  "json_kind JNull = ''null''"
| "json_kind (JBool b) = ''bool''"
| "json_kind (JNum r) = ''number''"
| "json_kind (JStr s) = ''string''"
| "json_kind (JArr xs) = ''array''"
| "json_kind (JObj kvs) = ''object''"

text \<open>The text of \<open>*json.UnmarshalTypeError\<close>, for a whole value and for a struct field.\<close>

definition type_error_value :: "json \<Rightarrow> string \<Rightarrow> error" where
  "type_error_value v gotype =
     ''json: cannot unmarshal '' @ json_kind v @ '' into Go value of type '' @ gotype"

definition type_error_field :: "json \<Rightarrow> string \<Rightarrow> string \<Rightarrow> string \<Rightarrow> error" where
  "type_error_field v struct key gotype =
     ''json: cannot unmarshal '' @ json_kind v @ '' into Go struct field '' @ struct @ ''.'' @ key
       @ '' of type '' @ gotype"

subsection \<open>Decoding an object into a struct\<close>

text \<open>
  \<open>encoding/json\<close> matches an object key to a struct field by its JSON name, ignoring
  case: ASCII letters fold together, and so do the two non-ASCII runes whose simple case
  folding is an ASCII letter (U+017F to \<open>s\<close>, U+212A to \<open>k\<close>). All field names below are
  ASCII and pairwise distinct under folding.
\<close>

definition lower :: "char \<Rightarrow> char" where
  "lower c = (let n = (of_char c :: nat) in if 65 \<le> n \<and> n \<le> 90 then char_of (n + 32) else c)"

fun fold_key :: "string \<Rightarrow> string" where
  "fold_key [] = []"
| "fold_key [c] = [lower c]"
| "fold_key [c, d] =
     (if c = CHR 0xC5 \<and> d = CHR 0xBF then ''s'' else lower c # fold_key [d])"
| "fold_key (c # d # e # cs) =
     (if c = CHR 0xC5 \<and> d = CHR 0xBF then CHR ''s'' # fold_key (e # cs)
      else if c = CHR 0xE2 \<and> d = CHR 0x84 \<and> e = CHR 0xAA then CHR ''k'' # fold_key cs
      else lower c # fold_key (d # e # cs))"

definition is_key :: "string \<Rightarrow> string \<Rightarrow> bool" where
  "is_key name k = (fold_key k = fold_key name)"

text \<open>
  The members are decoded in document order into the struct \<open>s\<close>; \<open>step k v s\<close> stores
  member \<open>k\<close> and reports a type mismatch, after which decoding goes on. The first
  mismatch is the error returned at the end.
\<close>

fun decode_members ::
  "(string \<Rightarrow> json \<Rightarrow> 's \<Rightarrow> error option \<times> 's) \<Rightarrow> (string \<times> json) list \<Rightarrow> 's \<Rightarrow> error option \<times> 's"
where
  "decode_members step [] s = (None, s)"
| "decode_members step ((k, v) # kvs) s =
     (case step k v s of
        (e, s') \<Rightarrow>
          (case decode_members step kvs s' of
             (e', s'') \<Rightarrow> ((case e of Some x \<Rightarrow> Some x | None \<Rightarrow> e'), s'')))"

text \<open>
  \<open>json.Unmarshal(data, &s)\<close> for a struct \<open>s\<close> of type \<open>gotype\<close>: invalid bytes are
  refused before anything is stored, \<open>null\<close> stores nothing, an object is decoded member by
  member, any other value is a type mismatch.
\<close>

definition unmarshal_struct ::
  "string \<Rightarrow> (string \<Rightarrow> json \<Rightarrow> 's \<Rightarrow> error option \<times> 's) \<Rightarrow> payload \<Rightarrow> 's \<Rightarrow> error option \<times> 's"
where
  "unmarshal_struct gotype step data s =
     (case checkValid data of
        Inl e \<Rightarrow> (Some e, s)
      | Inr JNull \<Rightarrow> (None, s)
      | Inr (JObj kvs) \<Rightarrow> decode_members step kvs s
      | Inr v \<Rightarrow> (Some (type_error_value v gotype), s))"

text \<open>Storing one member into a field of type \<open>string\<close>, \<open>bool\<close>, \<open>interface{}\<close>.\<close>

definition string_member :: "string \<Rightarrow> string \<Rightarrow> json \<Rightarrow> string \<Rightarrow> error option \<times> string" where
  "string_member struct key v cur =
     (case v of
        JStr x \<Rightarrow> (None, x)
      | JNull \<Rightarrow> (None, cur)
      | _ \<Rightarrow> (Some (type_error_field v struct key ''string''), cur))"

definition bool_member :: "string \<Rightarrow> string \<Rightarrow> json \<Rightarrow> bool \<Rightarrow> error option \<times> bool" where
  "bool_member struct key v cur =
     (case v of
        JBool x \<Rightarrow> (None, x)
      | JNull \<Rightarrow> (None, cur)
      | _ \<Rightarrow> (Some (type_error_field v struct key ''bool''), cur))"

section \<open>Provider configuration\<close>

subsection \<open>Vector stores (package vectorstores)\<close>

record QdrantConfig =
  Address :: string
  APIKey :: string
  CollectionName :: string

definition QdrantConfig_zero :: QdrantConfig where
  "QdrantConfig_zero = \<lparr>Address = [], APIKey = [], CollectionName = []\<rparr>"

subsection \<open>Graph stores (package graphs)\<close>

record Neo4jConfig =
  Neo4j_URL :: string
  Neo4j_Username :: string
  Neo4j_Password :: string
  Neo4j_Database :: string
  Neo4j_BaseLabel :: bool

record MemgraphConfig =
  Memgraph_URL :: string
  Memgraph_Username :: string
  Memgraph_Password :: string

definition Neo4jConfig_zero :: Neo4jConfig where
  "Neo4jConfig_zero =
     \<lparr>Neo4j_URL = [], Neo4j_Username = [], Neo4j_Password = [], Neo4j_Database = [],
      Neo4j_BaseLabel = False\<rparr>"

definition MemgraphConfig_zero :: MemgraphConfig where
  "MemgraphConfig_zero = \<lparr>Memgraph_URL = [], Memgraph_Username = [], Memgraph_Password = []\<rparr>"

text \<open>
  What the \<open>Config interface{}\<close> field of either store configuration holds: nothing, a
  pointer to one of the three concrete configurations, the raw member
  (\<open>json.RawMessage\<close>) or some other value without validation tags, known by the name
  \<open>%T\<close> prints. Pointers are to distinct, non-nil structs.
\<close>

datatype config_value =
    NilConfig
  | QdrantPtr QdrantConfig
  | Neo4jPtr Neo4jConfig
  | MemgraphPtr MemgraphConfig
  | RawMessage json
  | OtherConfig string

fun type_name :: "config_value \<Rightarrow> string" where
  "type_name NilConfig = ''<nil>''"
| "type_name (QdrantPtr q) = ''*vectorstores.QdrantConfig''"
| "type_name (Neo4jPtr n) = ''*graphs.Neo4jConfig''"
| "type_name (MemgraphPtr m) = ''*graphs.MemgraphConfig''"
| "type_name (RawMessage j) = ''json.RawMessage''"
| "type_name (OtherConfig t) = t"

record VectorStoreConfig =
  VS_Provider :: string
  VS_Config :: config_value

record GraphStoreConfig =
  GS_Provider :: string
  GS_Config :: config_value
  GS_LLM :: goval
  GS_CustomPrompt :: string

text \<open>The local struct \<open>VSCProvider\<close> of \<open>VectorStoreConfig.UnmarshalJSON\<close>.\<close>

record VSCProvider =
  VSC_Provider :: string
  VSC_Config :: "json option"

definition VSCProvider_member :: "string \<Rightarrow> json \<Rightarrow> VSCProvider \<Rightarrow> error option \<times> VSCProvider" where
  "VSCProvider_member k v t =
     (if is_key ''provider'' k then
        (case string_member ''VSCProvider'' ''provider'' v (VSC_Provider t) of
           (e, x) \<Rightarrow> (e, t\<lparr>VSC_Provider := x\<rparr>))
      else if is_key ''config'' k then (None, t\<lparr>VSC_Config := Some v\<rparr>)
      else (None, t))"

definition QdrantConfig_member :: "string \<Rightarrow> json \<Rightarrow> QdrantConfig \<Rightarrow> error option \<times> QdrantConfig" where
  "QdrantConfig_member k v q =
     (if is_key ''address'' k then
        (case string_member ''QdrantConfig'' ''address'' v (Address q) of
           (e, x) \<Rightarrow> (e, q\<lparr>Address := x\<rparr>))
      else if is_key ''api_key'' k then
        (case string_member ''QdrantConfig'' ''api_key'' v (APIKey q) of
           (e, x) \<Rightarrow> (e, q\<lparr>APIKey := x\<rparr>))
      else if is_key ''collection_name'' k then
        (case string_member ''QdrantConfig'' ''collection_name'' v (CollectionName q) of
           (e, x) \<Rightarrow> (e, q\<lparr>CollectionName := x\<rparr>))
      else (None, q))"

text \<open>
  \<open>VectorStoreConfig.UnmarshalJSON\<close>. The receiver is passed in and returned: the
  provider is stored before the checks that may fail.
\<close>

definition VectorStoreConfig_UnmarshalJSON ::
  "payload \<Rightarrow> VectorStoreConfig \<Rightarrow> error option \<times> VectorStoreConfig"
where
  "VectorStoreConfig_UnmarshalJSON data vsc =
     (case unmarshal_struct ''vectorstores.VSCProvider'' VSCProvider_member data
             \<lparr>VSC_Provider = [], VSC_Config = None\<rparr> of
        (Some err, temp) \<Rightarrow> (Some err, vsc)
      | (None, temp) \<Rightarrow>
          (let vsc = vsc\<lparr>VS_Provider := VSC_Provider temp\<rparr> in
           case VSC_Config temp of
             None \<Rightarrow>
               if VS_Provider vsc \<noteq> []
               then (Some (''config field is missing for provider '' @ VS_Provider vsc), vsc)
               else (None, vsc\<lparr>VS_Config := NilConfig\<rparr>)
           | Some raw \<Rightarrow>
               if VS_Provider vsc = ''qdrant'' then
                 (case unmarshal_struct ''vectorstores.QdrantConfig'' QdrantConfig_member (Doc raw)
                         QdrantConfig_zero of
                    (Some err, qConfig) \<Rightarrow> (Some (''error unmarshalling qdrant config: '' @ err), vsc)
                  | (None, qConfig) \<Rightarrow> (None, vsc\<lparr>VS_Config := QdrantPtr qConfig\<rparr>))
               else if VS_Provider vsc \<noteq> []
               then (Some (''unsupported vector store provider: '' @ VS_Provider vsc), vsc)
               else (None, vsc\<lparr>VS_Config := RawMessage raw\<rparr>)))"

text \<open>
  The anonymous struct \<open>aux\<close> of \<open>GraphStoreConfig.UnmarshalJSON\<close>: its own
  \<open>Config json.RawMessage\<close> shadows the \<open>Config\<close> of the embedded alias, whose other
  fields are the receiver's, so they are decoded straight into the receiver.
\<close>

record GraphStoreConfig_aux =
  aux_Config :: "json option"
  aux_Alias :: GraphStoreConfig

definition aux_type :: string where
  "aux_type =
     ''struct { Config json.RawMessage '' @ [CHR 0x22] @ ''json:'' @ [CHR 0x5C, CHR 0x22] @ ''config''
       @ [CHR 0x5C, CHR 0x22, CHR 0x22] @ ''; *graphs.Alias }''"

definition aux_member ::
  "string \<Rightarrow> json \<Rightarrow> GraphStoreConfig_aux \<Rightarrow> error option \<times> GraphStoreConfig_aux"
where
  "aux_member k v a =
     (let c = aux_Alias a in
      if is_key ''config'' k then (None, a\<lparr>aux_Config := Some v\<rparr>)
      else if is_key ''provider'' k then
        (case string_member [] ''provider'' v (GS_Provider c) of
           (e, x) \<Rightarrow> (e, a\<lparr>aux_Alias := c\<lparr>GS_Provider := x\<rparr>\<rparr>))
      else if is_key ''llm'' k then (None, a\<lparr>aux_Alias := c\<lparr>GS_LLM := of_json v\<rparr>\<rparr>)
      else if is_key ''custom_prompt'' k then
        (case string_member [] ''custom_prompt'' v (GS_CustomPrompt c) of
           (e, x) \<Rightarrow> (e, a\<lparr>aux_Alias := c\<lparr>GS_CustomPrompt := x\<rparr>\<rparr>))
      else (None, a))"

definition Neo4jConfig_member :: "string \<Rightarrow> json \<Rightarrow> Neo4jConfig \<Rightarrow> error option \<times> Neo4jConfig" where
  "Neo4jConfig_member k v n =
     (if is_key ''url'' k then
        (case string_member ''Neo4jConfig'' ''url'' v (Neo4j_URL n) of
           (e, x) \<Rightarrow> (e, n\<lparr>Neo4j_URL := x\<rparr>))
      else if is_key ''username'' k then
        (case string_member ''Neo4jConfig'' ''username'' v (Neo4j_Username n) of
           (e, x) \<Rightarrow> (e, n\<lparr>Neo4j_Username := x\<rparr>))
      else if is_key ''password'' k then
        (case string_member ''Neo4jConfig'' ''password'' v (Neo4j_Password n) of
           (e, x) \<Rightarrow> (e, n\<lparr>Neo4j_Password := x\<rparr>))
      else if is_key ''database'' k then
        (case string_member ''Neo4jConfig'' ''database'' v (Neo4j_Database n) of
           (e, x) \<Rightarrow> (e, n\<lparr>Neo4j_Database := x\<rparr>))
      else if is_key ''base_label'' k then
        (case bool_member ''Neo4jConfig'' ''base_label'' v (Neo4j_BaseLabel n) of
           (e, x) \<Rightarrow> (e, n\<lparr>Neo4j_BaseLabel := x\<rparr>))
      else (None, n))"

definition MemgraphConfig_member ::
  "string \<Rightarrow> json \<Rightarrow> MemgraphConfig \<Rightarrow> error option \<times> MemgraphConfig"
where
  "MemgraphConfig_member k v m =
     (if is_key ''url'' k then
        (case string_member ''MemgraphConfig'' ''url'' v (Memgraph_URL m) of
           (e, x) \<Rightarrow> (e, m\<lparr>Memgraph_URL := x\<rparr>))
      else if is_key ''username'' k then
        (case string_member ''MemgraphConfig'' ''username'' v (Memgraph_Username m) of
           (e, x) \<Rightarrow> (e, m\<lparr>Memgraph_Username := x\<rparr>))
      else if is_key ''password'' k then
        (case string_member ''MemgraphConfig'' ''password'' v (Memgraph_Password m) of
           (e, x) \<Rightarrow> (e, m\<lparr>Memgraph_Password := x\<rparr>))
      else (None, m))"

text \<open>The bytes of a \<open>json.RawMessage\<close>: \<open>nil\<close> when the member never occurred.\<close>

definition raw_bytes :: "json option \<Rightarrow> payload" where
  "raw_bytes raw = (case raw of None \<Rightarrow> Empty | Some j \<Rightarrow> Doc j)"

text \<open>
  \<open>GraphStoreConfig.UnmarshalJSON\<close>. Whatever the first decode stored in the receiver
  stays there when an error is returned.
\<close>

definition GraphStoreConfig_UnmarshalJSON ::
  "payload \<Rightarrow> GraphStoreConfig \<Rightarrow> error option \<times> GraphStoreConfig"
where
  "GraphStoreConfig_UnmarshalJSON data c =
     (case unmarshal_struct aux_type aux_member data \<lparr>aux_Config = None, aux_Alias = c\<rparr> of
        (Some err, aux) \<Rightarrow> (Some err, aux_Alias aux)
      | (None, aux) \<Rightarrow>
          (let c = aux_Alias aux in
           if GS_Provider c = ''neo4j'' then
             (case unmarshal_struct ''graphs.Neo4jConfig'' Neo4jConfig_member
                     (raw_bytes (aux_Config aux)) Neo4jConfig_zero of
                (Some err, neo4jCfg) \<Rightarrow> (Some (''failed to unmarshal neo4j config: '' @ err), c)
              | (None, neo4jCfg) \<Rightarrow> (None, c\<lparr>GS_Config := Neo4jPtr neo4jCfg\<rparr>))
           else if GS_Provider c = ''memgraph'' then
             (case unmarshal_struct ''graphs.MemgraphConfig'' MemgraphConfig_member
                     (raw_bytes (aux_Config aux)) MemgraphConfig_zero of
                (Some err, memgraphCfg) \<Rightarrow>
                  (Some (''failed to unmarshal memgraph config: '' @ err), c)
              | (None, memgraphCfg) \<Rightarrow> (None, c\<lparr>GS_Config := MemgraphPtr memgraphCfg\<rparr>))
           else (Some (''unknown graph store provider: '' @ GS_Provider c), c)))"

definition VectorStoreConfig_zero :: VectorStoreConfig where
  "VectorStoreConfig_zero = \<lparr>VS_Provider = [], VS_Config = NilConfig\<rparr>"

definition GraphStoreConfig_zero :: GraphStoreConfig where
  "GraphStoreConfig_zero =
     \<lparr>GS_Provider = [], GS_Config = NilConfig, GS_LLM = GNil, GS_CustomPrompt = []\<rparr>"

section \<open>Struct validation (go-playground/validator)\<close>

text \<open>
  \<open>validate.Struct\<close> visits the fields in declaration order, stops a field's tag list at
  its first failing tag, collects one \<open>FieldError\<close> per failing field and goes into
  structs held by fields, slice elements under \<open>dive\<close> and pointers in interfaces.
  An empty list is the \<open>nil\<close> error.
\<close>

record FieldError =
  Namespace :: string
  Field :: string
  Tag :: string

definition quote :: "string \<Rightarrow> string" where
  "quote s = [CHR 0x27] @ s @ [CHR 0x27]"

definition FieldError_Error :: "FieldError \<Rightarrow> string" where
  "FieldError_Error fe =
     ''Key: '' @ quote (Namespace fe) @ '' Error:Field validation for '' @ quote (Field fe)
       @ '' failed on the '' @ quote (Tag fe) @ '' tag''"

fun join_lines :: "string list \<Rightarrow> string" where
  "join_lines [] = []"
| "join_lines [l] = l"
| "join_lines (l # m # ls) = l @ [CHR 0x0A] @ join_lines (m # ls)"

definition ValidationErrors_Error :: "FieldError list \<Rightarrow> string" where
  "ValidationErrors_Error ve = join_lines (map FieldError_Error ve)"

definition validate_result :: "FieldError list \<Rightarrow> error option" where
  "validate_result ve = (if ve = [] then None else Some (ValidationErrors_Error ve))"

definition failed :: "string \<Rightarrow> string \<Rightarrow> string \<Rightarrow> FieldError list" where
  "failed ns name tag = [\<lparr>Namespace = ns @ name, Field = name, Tag = tag\<rparr>]"

text \<open>A string field tagged \<open>required\<close>; one tagged \<open>required,oneof=...\<close>.\<close>

definition required :: "string \<Rightarrow> string \<Rightarrow> string \<Rightarrow> FieldError list" where
  "required ns name s = (if s = [] then failed ns name ''required'' else [])"

definition required_oneof :: "string \<Rightarrow> string \<Rightarrow> string list \<Rightarrow> string \<Rightarrow> FieldError list" where
  "required_oneof ns name allowed s =
     (if s = [] then failed ns name ''required''
      else if s \<notin> set allowed then failed ns name ''oneof''
      else [])"

text \<open>
  \<open>QdrantConfig\<close>: \<open>Address\<close> is \<open>required,url|hostname_port\<close>. The two shape checks
  are the validator library's; their disjunction is the parameter \<open>addr_ok\<close>.
\<close>

definition QdrantConfig_fields :: "(string \<Rightarrow> bool) \<Rightarrow> string \<Rightarrow> QdrantConfig \<Rightarrow> FieldError list" where
  "QdrantConfig_fields addr_ok ns c =
     (if Address c = [] then failed ns ''Address'' ''required''
      else if \<not> addr_ok (Address c) then failed ns ''Address'' ''url|hostname_port''
      else [])
     @ required ns ''CollectionName'' (CollectionName c)"

definition QdrantConfig_Validate :: "(string \<Rightarrow> bool) \<Rightarrow> QdrantConfig \<Rightarrow> error option" where
  "QdrantConfig_Validate addr_ok c = validate_result (QdrantConfig_fields addr_ok ''QdrantConfig.'' c)"

definition Neo4jConfig_fields :: "string \<Rightarrow> Neo4jConfig \<Rightarrow> FieldError list" where
  "Neo4jConfig_fields ns c =
     required ns ''URL'' (Neo4j_URL c) @ required ns ''Username'' (Neo4j_Username c)
       @ required ns ''Password'' (Neo4j_Password c)"

definition Neo4jConfig_Validate :: "Neo4jConfig \<Rightarrow> error option" where
  "Neo4jConfig_Validate c = validate_result (Neo4jConfig_fields ''Neo4jConfig.'' c)"

definition MemgraphConfig_fields :: "string \<Rightarrow> MemgraphConfig \<Rightarrow> FieldError list" where
  "MemgraphConfig_fields ns c =
     required ns ''URL'' (Memgraph_URL c) @ required ns ''Username'' (Memgraph_Username c)
       @ required ns ''Password'' (Memgraph_Password c)"

definition MemgraphConfig_Validate :: "MemgraphConfig \<Rightarrow> error option" where
  "MemgraphConfig_Validate c = validate_result (MemgraphConfig_fields ''MemgraphConfig.'' c)"

text \<open>
  The validator follows a non-nil \<open>Config interface{}\<close> to the struct it points to and
  validates that struct's own tags, whatever the provider says.
\<close>

fun config_fields :: "(string \<Rightarrow> bool) \<Rightarrow> string \<Rightarrow> config_value \<Rightarrow> FieldError list" where
  "config_fields addr_ok ns (QdrantPtr q) = QdrantConfig_fields addr_ok ns q"
| "config_fields addr_ok ns (Neo4jPtr n) = Neo4jConfig_fields ns n"
| "config_fields addr_ok ns (MemgraphPtr m) = MemgraphConfig_fields ns m"
| "config_fields addr_ok ns v = []"

text \<open>
  \<open>VectorStoreConfig\<close>: \<open>Provider\<close> is \<open>required,oneof=qdrant\<close>, \<open>Config\<close> is
  \<open>required\<close>.
\<close>

definition VectorStoreConfig_fields :: "(string \<Rightarrow> bool) \<Rightarrow> VectorStoreConfig \<Rightarrow> FieldError list" where
  "VectorStoreConfig_fields addr_ok vsc =
     required_oneof ''VectorStoreConfig.'' ''Provider'' [''qdrant''] (VS_Provider vsc)
     @ (if VS_Config vsc = NilConfig then failed ''VectorStoreConfig.'' ''Config'' ''required''
        else config_fields addr_ok ''VectorStoreConfig.Config.'' (VS_Config vsc))"

definition VectorStoreConfig_Validate :: "(string \<Rightarrow> bool) \<Rightarrow> VectorStoreConfig \<Rightarrow> error option" where
  "VectorStoreConfig_Validate addr_ok vsc =
     (case validate_result (VectorStoreConfig_fields addr_ok vsc) of
        Some err \<Rightarrow> Some err
      | None \<Rightarrow>
          (case VS_Config vsc of
             QdrantPtr c \<Rightarrow>
               if VS_Provider vsc \<noteq> ''qdrant''
               then Some (''provider is '' @ quote (VS_Provider vsc) @ '' but config type is *QdrantConfig'')
               else QdrantConfig_Validate addr_ok c
           | _ \<Rightarrow>
               if VS_Provider vsc = ''qdrant''
               then Some (''config for provider '' @ quote (VS_Provider vsc) @ '' is of unexpected type ''
                            @ type_name (VS_Config vsc))
               else Some (''unknown config type ('' @ type_name (VS_Config vsc) @ '') for provider ''
                            @ quote (VS_Provider vsc))))"

text \<open>
  \<open>GraphStoreConfig\<close>: \<open>Provider\<close> is \<open>required,oneof=neo4j memgraph\<close>; \<open>Config\<close>,
  \<open>LLM\<close> and \<open>CustomPrompt\<close> carry no tag (what \<open>LLM\<close> holds has none either).
\<close>

definition GraphStoreConfig_fields :: "(string \<Rightarrow> bool) \<Rightarrow> GraphStoreConfig \<Rightarrow> FieldError list" where
  "GraphStoreConfig_fields addr_ok c =
     required_oneof ''GraphStoreConfig.'' ''Provider'' [''neo4j'', ''memgraph''] (GS_Provider c)
     @ config_fields addr_ok ''GraphStoreConfig.Config.'' (GS_Config c)"

definition GraphStoreConfig_Validate :: "(string \<Rightarrow> bool) \<Rightarrow> GraphStoreConfig \<Rightarrow> error option" where
  "GraphStoreConfig_Validate addr_ok c =
     (case validate_result (GraphStoreConfig_fields addr_ok c) of
        Some err \<Rightarrow> Some err
      | None \<Rightarrow>
          if GS_Provider c = ''neo4j'' then
            (case GS_Config c of
               Neo4jPtr n \<Rightarrow> None
             | _ \<Rightarrow> Some (''config for provider '' @ quote ''neo4j'' @ '' must be of type *Neo4jConfig, got ''
                          @ type_name (GS_Config c)))
          else if GS_Provider c = ''memgraph'' then
            (case GS_Config c of
               MemgraphPtr m \<Rightarrow> None
             | _ \<Rightarrow> Some (''config for provider '' @ quote ''memgraph''
                          @ '' must be of type *MemgraphConfig, got '' @ type_name (GS_Config c)))
          else Some (''provider '' @ quote (GS_Provider c) @ '' is valid but has an unexpected config type: ''
                       @ type_name (GS_Config c)))"

section \<open>Strings on the wire\<close>

text \<open>
  A Go string is any sequence of bytes. \<open>json.Marshal\<close> writes a string as valid
  UTF-8: every byte that does not start a well-formed encoding of a code point is replaced
  by U+FFFD. \<open>rune_len\<close> is the length of the well-formed encoding a string starts with
  (\<open>0\<close> when it starts with none).
\<close>

definition byte :: "char \<Rightarrow> nat" where
  "byte c = of_char c"

definition continuation :: "char \<Rightarrow> bool" where
  "continuation c = (0x80 \<le> byte c \<and> byte c \<le> 0xBF)"

definition second_ok :: "nat \<Rightarrow> char \<Rightarrow> bool" where
  "second_ok b c =
     ((if b = 0xE0 then 0xA0 else if b = 0xF0 then 0x90 else 0x80) \<le> byte c
      \<and> byte c \<le> (if b = 0xED then 0x9F else if b = 0xF4 then 0x8F else 0xBF))"

fun rune_len :: "string \<Rightarrow> nat" where
  "rune_len [] = 0"
| "rune_len (c # cs) =
     (let b = byte c in
      if b < 0x80 then 1
      else if 0xC2 \<le> b \<and> b \<le> 0xDF then
        (case cs of c1 # r \<Rightarrow> if continuation c1 then 2 else 0 | _ \<Rightarrow> 0)
      else if 0xE0 \<le> b \<and> b \<le> 0xEF then
        (case cs of
           c1 # c2 # r \<Rightarrow> if second_ok b c1 \<and> continuation c2 then 3 else 0
         | _ \<Rightarrow> 0)
      else if 0xF0 \<le> b \<and> b \<le> 0xF4 then
        (case cs of
           c1 # c2 # c3 # r \<Rightarrow>
             if second_ok b c1 \<and> continuation c2 \<and> continuation c3 then 4 else 0
         | _ \<Rightarrow> 0)
      else 0)"

function coerce_utf8 :: "string \<Rightarrow> string" where
  "coerce_utf8 [] = []"
| "coerce_utf8 (c # cs) =
     (let n = rune_len (c # cs) in
      if n = 0 then [CHR 0xEF, CHR 0xBF, CHR 0xBD] @ coerce_utf8 cs
      else c # take (n - 1) cs @ coerce_utf8 (drop (n - 1) cs))"
  by pat_completeness auto
termination
  by (relation "measure length") auto

definition valid_utf8 :: "string \<Rightarrow> bool" where
  "valid_utf8 s = (coerce_utf8 s = s)"

definition JString :: "string \<Rightarrow> json" where
  "JString s = JStr (coerce_utf8 s)"

section \<open>Encoding dynamic values\<close>

text \<open>
  \<open>json.Marshal\<close> of a value held in an \<open>interface{}\<close>. The members of an encoded
  map keep the order of the association list (Go emits them sorted by key, which no
  decoder below can tell apart while keys are distinct).
\<close>

fun to_json :: "goval \<Rightarrow> error + json"
  and to_json_list :: "goval list \<Rightarrow> error + json list"
  and to_json_members :: "(string \<times> goval) list \<Rightarrow> error + (string \<times> json) list"
where
  "to_json GNil = Inr JNull"
| "to_json (GBool b) = Inr (JBool b)"
| "to_json (GFloat64 r) = Inr (JNum r)"
| "to_json (GString s) = Inr (JString s)"
| "to_json (GSlice xs) = (case to_json_list xs of Inl e \<Rightarrow> Inl e | Inr js \<Rightarrow> Inr (JArr js))"
| "to_json (GMap kvs) = (case to_json_members kvs of Inl e \<Rightarrow> Inl e | Inr ms \<Rightarrow> Inr (JObj ms))"
| "to_json (GOther r) = r"
| "to_json_list [] = Inr []"
| "to_json_list (x # xs) =
     (case to_json x of
        Inl e \<Rightarrow> Inl e
      | Inr j \<Rightarrow> (case to_json_list xs of Inl e \<Rightarrow> Inl e | Inr js \<Rightarrow> Inr (j # js)))"
| "to_json_members [] = Inr []"
| "to_json_members ((k, x) # kvs) =
     (case to_json x of
        Inl e \<Rightarrow> Inl e
      | Inr j \<Rightarrow>
          (case to_json_members kvs of Inl e \<Rightarrow> Inl e | Inr ms \<Rightarrow> Inr ((coerce_utf8 k, j) # ms)))"

text \<open>
  A \<open>map[string]interface{}\<close> field: \<open>None\<close> is the nil map. Encoded on its own a nil
  map is \<open>null\<close>; under \<open>omitempty\<close> a nil or empty map is left out.
\<close>

type_synonym gomap = "(string \<times> goval) list option"

definition marshal_map :: "gomap \<Rightarrow> error + json" where
  "marshal_map m =
     (case m of
        None \<Rightarrow> Inr JNull
      | Some kvs \<Rightarrow> (case to_json_members kvs of Inl e \<Rightarrow> Inl e | Inr ms \<Rightarrow> Inr (JObj ms)))"

text \<open>
  \<open>json.Unmarshal(data, &m)\<close> for a map \<open>m\<close>: \<open>null\<close> sets it to nil, an object adds
  its members to the map (allocated when nil), anything else is a type mismatch.
\<close>

definition map_value :: "json \<Rightarrow> gomap \<Rightarrow> string \<Rightarrow> error option \<times> gomap" where
  "map_value v m mismatch =
     (case v of
        JNull \<Rightarrow> (None, None)
      | JObj kvs \<Rightarrow>
          (None, Some ((case m of None \<Rightarrow> [] | Some old \<Rightarrow> old) @ map (\<lambda>(k, x). (k, of_json x)) kvs))
      | _ \<Rightarrow> (Some mismatch, m))"

definition unmarshal_map :: "payload \<Rightarrow> gomap \<Rightarrow> error option \<times> gomap" where
  "unmarshal_map data m =
     (case checkValid data of
        Inl e \<Rightarrow> (Some e, m)
      | Inr v \<Rightarrow> map_value v m (type_error_value v ''map[string]interface {}''))"

section \<open>Identifiers and time\<close>

text \<open>
  \<open>uuid.New()\<close> draws 16 random bytes, here the number \<open>u\<close> they spell; \<open>String()\<close>
  prints them as 32 hexadecimal digits in five groups. An instant of time is a number,
  \<open>0\<close> being the zero \<open>time.Time\<close>; locations and monotonic readings are left out.
\<close>

type_synonym uuid = nat

definition hex_digit :: "nat \<Rightarrow> char" where
  "hex_digit n = ''0123456789abcdef'' ! (n mod 16)"

definition hex_digits :: "uuid \<Rightarrow> nat \<Rightarrow> nat \<Rightarrow> string" where
  "hex_digits u first n = map (\<lambda>i. hex_digit (u div 16 ^ (31 - i))) [first ..< first + n]"

definition uuid_String :: "uuid \<Rightarrow> string" where
  "uuid_String u =
     hex_digits u 0 8 @ ''-'' @ hex_digits u 8 4 @ ''-'' @ hex_digits u 12 4 @ ''-''
       @ hex_digits u 16 4 @ ''-'' @ hex_digits u 20 12"

type_synonym time = int

definition IsZero :: "time \<Rightarrow> bool" where
  "IsZero t = (t = 0)"

section \<open>History store (package memory)\<close>

record MemoryEvent =
  EventID :: string
  Event_MemoryID :: string
  EventType :: string
  Timestamp :: time
  Event_UserID :: string
  Event_AgentID :: string
  Event_RunID :: string
  Event_ActorID :: string
  OldMemory :: string
  NewMemory :: string
  SearchQuery :: string
  Details :: gomap

definition MemoryEvent_zero :: MemoryEvent where
  "MemoryEvent_zero =
     \<lparr>EventID = [], Event_MemoryID = [], EventType = [], Timestamp = 0, Event_UserID = [],
      Event_AgentID = [], Event_RunID = [], Event_ActorID = [], OldMemory = [], NewMemory = [],
      SearchQuery = [], Details = None\<rparr>"

text \<open>
  A row of the table \<open>history\<close>; \<open>None\<close> is SQL \<open>NULL\<close>. The \<open>details\<close> text is kept
  as the bytes a JSON decoder would be given. A database is the table's rows in insertion
  order, or \<open>None\<close> while the table does not exist. The driver is taken to fail only for
  what the database holds (a missing table, a repeated primary key), not for I/O or a
  cancelled context.
\<close>

record row =
  event_id :: string
  memory_id :: "string option"
  event_type :: string
  timestamp :: time
  user_id :: "string option"
  agent_id :: "string option"
  run_id :: "string option"
  actor_id :: "string option"
  old_memory :: "string option"
  new_memory :: "string option"
  search_query :: "string option"
  details :: "payload option"

type_synonym database = "row list option"

definition exec_create_table :: "database \<Rightarrow> error + database" where
  "exec_create_table d = Inr (case d of None \<Rightarrow> Some [] | Some rows \<Rightarrow> Some rows)"

definition exec_create_index :: "database \<Rightarrow> error + database" where
  "exec_create_index d =
     (case d of None \<Rightarrow> Inl ''no such table: main.history'' | Some rows \<Rightarrow> Inr (Some rows))"

definition exec_drop_table :: "database \<Rightarrow> error + database" where
  "exec_drop_table d = Inr None"

definition prepare_insert :: "database \<Rightarrow> error option" where
  "prepare_insert d = (case d of None \<Rightarrow> Some ''no such table: history'' | Some rows \<Rightarrow> None)"

definition exec_insert :: "row \<Rightarrow> database \<Rightarrow> error + database" where
  "exec_insert r d =
     (case d of
        None \<Rightarrow> Inl ''no such table: history''
      | Some rows \<Rightarrow>
          if event_id r \<in> set (map event_id rows)
          then Inl ''UNIQUE constraint failed: history.event_id''
          else Inr (Some (rows @ [r])))"

text \<open>
  \<open>SELECT ... WHERE memory_id = ? ORDER BY timestamp ASC\<close>: a \<open>NULL\<close> memory_id equals
  nothing; rows with equal timestamps stay in insertion order.
\<close>

definition query_history :: "string \<Rightarrow> database \<Rightarrow> error + row list" where
  "query_history memoryID d =
     (case d of
        None \<Rightarrow> Inl ''no such table: history''
      | Some rows \<Rightarrow> Inr (sort_key timestamp (filter (\<lambda>r. memory_id r = Some memoryID) rows)))"

text \<open>
  The store's \<open>sync.RWMutex\<close>, as one goroutine sees it: taking a lock that cannot be
  had blocks, and since nobody else will release it, blocks for good.
\<close>

datatype rwmutex = Free | Writer | Readers nat

datatype 'a outcome = Returns 'a | Panics string | Blocks

record SQLiteHistoryStore =
  db :: "database option"
  dbPath :: string
  mu :: rwmutex

definition Lock :: "SQLiteHistoryStore \<Rightarrow> SQLiteHistoryStore option" where
  "Lock s = (case mu s of Free \<Rightarrow> Some (s\<lparr>mu := Writer\<rparr>) | _ \<Rightarrow> None)"

definition Unlock :: "SQLiteHistoryStore \<Rightarrow> SQLiteHistoryStore" where
  "Unlock s = s\<lparr>mu := Free\<rparr>"

definition RLock :: "SQLiteHistoryStore \<Rightarrow> SQLiteHistoryStore option" where
  "RLock s =
     (case mu s of
        Free \<Rightarrow> Some (s\<lparr>mu := Readers 1\<rparr>)
      | Readers n \<Rightarrow> Some (s\<lparr>mu := Readers (Suc n)\<rparr>)
      | Writer \<Rightarrow> None)"

definition RUnlock :: "SQLiteHistoryStore \<Rightarrow> SQLiteHistoryStore" where
  "RUnlock s =
     (case mu s of
        Readers (Suc (Suc n)) \<Rightarrow> s\<lparr>mu := Readers (Suc n)\<rparr>
      | _ \<Rightarrow> s\<lparr>mu := Free\<rparr>)"

definition nil_dereference :: string where
  "nil_dereference = ''runtime error: invalid memory address or nil pointer dereference''"

text \<open>
  \<open>_createHistoryTable\<close>: takes the write lock itself, releases it on the way out
  (\<open>defer\<close>), also when a call on the nil handle panics.
\<close>

definition createHistoryTable :: "SQLiteHistoryStore \<Rightarrow> error option outcome \<times> SQLiteHistoryStore" where
  "createHistoryTable s0 =
     (case Lock s0 of
        None \<Rightarrow> (Blocks, s0)
      | Some s \<Rightarrow>
          (case db s of
             None \<Rightarrow> (Panics nil_dereference, Unlock s)
           | Some d \<Rightarrow>
               (case exec_create_table d of
                  Inl err \<Rightarrow>
                    (Returns (Some (''failed to execute create history table statement: '' @ err)),
                     Unlock s)
                | Inr d1 \<Rightarrow>
                    (case exec_create_index d1 of
                       Inl err \<Rightarrow>
                         (Returns (Some (''failed to create memory_id index: '' @ err)),
                          Unlock (s\<lparr>db := Some d1\<rparr>))
                     | Inr d2 \<Rightarrow>
                         (case exec_create_index d2 of
                            Inl err \<Rightarrow>
                              (Returns (Some (''failed to create timestamp index: '' @ err)),
                               Unlock (s\<lparr>db := Some d2\<rparr>))
                          | Inr d3 \<Rightarrow> (Returns None, Unlock (s\<lparr>db := Some d3\<rparr>)))))))"

text \<open>
  \<open>NewSQLiteHistoryStore\<close>, given what the database named by the data source holds
  (opening and pinging it are taken to succeed).
\<close>

definition Close :: "SQLiteHistoryStore \<Rightarrow> error option outcome \<times> SQLiteHistoryStore" where
  "Close s0 =
     (case Lock s0 of
        None \<Rightarrow> (Blocks, s0)
      | Some s \<Rightarrow>
          (case db s of
             Some d \<Rightarrow> (Returns None, Unlock (s\<lparr>db := None\<rparr>))
           | None \<Rightarrow> (Returns None, Unlock s)))"

definition NewSQLiteHistoryStore :: "string \<Rightarrow> database \<Rightarrow> (error + SQLiteHistoryStore) outcome" where
  "NewSQLiteHistoryStore dataSourceName held =
     (let store = \<lparr>db = Some held, dbPath = dataSourceName, mu = Free\<rparr> in
      case createHistoryTable store of
        (Returns (Some err), s) \<Rightarrow> Returns (Inl (''failed to create history table: '' @ err))
      | (Returns None, s) \<Rightarrow> Returns (Inr s)
      | (Panics msg, s) \<Rightarrow> Panics msg
      | (Blocks, s) \<Rightarrow> Blocks)"

definition NullString :: "string \<Rightarrow> string option" where
  "NullString s = (if s \<noteq> [] then Some s else None)"

definition String :: "string option \<Rightarrow> string" where
  "String n = (case n of None \<Rightarrow> [] | Some s \<Rightarrow> s)"

text \<open>The twelve arguments \<open>LogEvent\<close> binds to its \<open>INSERT\<close> statement.\<close>

definition insert_args :: "MemoryEvent \<Rightarrow> json \<Rightarrow> row" where
  "insert_args event detailsJSON =
     \<lparr>event_id = EventID event,
      memory_id = NullString (Event_MemoryID event),
      event_type = EventType event,
      timestamp = Timestamp event,
      user_id = NullString (Event_UserID event),
      agent_id = NullString (Event_AgentID event),
      run_id = NullString (Event_RunID event),
      actor_id = NullString (Event_ActorID event),
      old_memory = NullString (OldMemory event),
      new_memory = NullString (NewMemory event),
      search_query = NullString (SearchQuery event),
      details = Some (Doc detailsJSON)\<rparr>"

text \<open>
  \<open>LogEvent\<close>. The event is passed by pointer: the identifier and timestamp filled in are
  the caller's to see, so the event is returned with the outcome. \<open>u\<close> is the identifier
  \<open>uuid.New()\<close> would draw and \<open>now\<close> the clock's reading.
\<close>

definition LogEvent ::
  "uuid \<Rightarrow> time \<Rightarrow> SQLiteHistoryStore \<Rightarrow> MemoryEvent
     \<Rightarrow> error option outcome \<times> SQLiteHistoryStore \<times> MemoryEvent"
where
  "LogEvent u now s0 event0 =
     (case Lock s0 of
        None \<Rightarrow> (Blocks, s0, event0)
      | Some s \<Rightarrow>
          (case db s of
             None \<Rightarrow> (Returns (Some ''SQLiteHistoryStore is closed''), Unlock s, event0)
           | Some d \<Rightarrow>
               (let event1 = (if EventID event0 = [] then event0\<lparr>EventID := uuid_String u\<rparr> else event0);
                    event = (if IsZero (Timestamp event1) then event1\<lparr>Timestamp := now\<rparr> else event1)
                in case marshal_map (Details event) of
                     Inl err \<Rightarrow>
                       (Returns (Some (''failed to marshal event details to JSON: '' @ err)),
                        Unlock s, event)
                   | Inr detailsJSON \<Rightarrow>
                       (case prepare_insert d of
                          Some err \<Rightarrow>
                            (Returns (Some (''failed to prepare insert statement for history: '' @ err)),
                             Unlock s, event)
                        | None \<Rightarrow>
                            (case exec_insert (insert_args event detailsJSON) d of
                               Inl err \<Rightarrow>
                                 (Returns (Some (''failed to execute insert statement for history: ''
                                                   @ err)),
                                  Unlock s, event)
                             | Inr d' \<Rightarrow> (Returns None, Unlock (s\<lparr>db := Some d'\<rparr>), event))))))"

text \<open>
  The body of the \<open>rows.Next()\<close> loop of \<open>GetHistory\<close>: one row becomes one event.
\<close>

definition scan_event :: "row \<Rightarrow> MemoryEvent" where
  "scan_event r =
     (let event = MemoryEvent_zero
            \<lparr>EventID := event_id r, EventType := event_type r, Timestamp := timestamp r\<rparr>;
          event = event
            \<lparr>Event_MemoryID := String (memory_id r), Event_UserID := String (user_id r),
             Event_AgentID := String (agent_id r), Event_RunID := String (run_id r),
             Event_ActorID := String (actor_id r), OldMemory := String (old_memory r),
             NewMemory := String (new_memory r), SearchQuery := String (search_query r)\<rparr>
      in case details r of
           None \<Rightarrow> event\<lparr>Details := Some []\<rparr>
         | Some Empty \<Rightarrow> event\<lparr>Details := Some []\<rparr>
         | Some detailsJSON \<Rightarrow>
             (case unmarshal_map detailsJSON (Details event) of
                (Some err, m) \<Rightarrow>
                  event\<lparr>Details := Some [(''error'', GString (''failed to unmarshal details: '' @ err))]\<rparr>
              | (None, m) \<Rightarrow> event\<lparr>Details := m\<rparr>))"

definition GetHistory ::
  "SQLiteHistoryStore \<Rightarrow> string \<Rightarrow> (error + MemoryEvent list) outcome \<times> SQLiteHistoryStore"
where
  "GetHistory s0 memoryID =
     (case RLock s0 of
        None \<Rightarrow> (Blocks, s0)
      | Some s \<Rightarrow>
          (case db s of
             None \<Rightarrow> (Panics nil_dereference, RUnlock s)
           | Some d \<Rightarrow>
               (case query_history memoryID d of
                  Inl err \<Rightarrow>
                    (Returns (Inl (''failed to query history for memory_id '' @ memoryID @ '': '' @ err)),
                     RUnlock s)
                | Inr rows \<Rightarrow> (Returns (Inr (map scan_event rows)), RUnlock s))))"

text \<open>
  \<open>Reset\<close> holds the write lock across its call of \<open>_createHistoryTable\<close>, which
  takes the same lock.
\<close>

definition Reset :: "SQLiteHistoryStore \<Rightarrow> error option outcome \<times> SQLiteHistoryStore" where
  "Reset s0 =
     (case Lock s0 of
        None \<Rightarrow> (Blocks, s0)
      | Some s \<Rightarrow>
          (case db s of
             None \<Rightarrow> (Panics nil_dereference, Unlock s)
           | Some d \<Rightarrow>
               (case exec_drop_table d of
                  Inl err \<Rightarrow> (Returns (Some (''failed to drop history table: '' @ err)), Unlock s)
                | Inr d' \<Rightarrow>
                    (case createHistoryTable (s\<lparr>db := Some d'\<rparr>) of
                       (Blocks, s') \<Rightarrow> (Blocks, s')
                     | (r, s') \<Rightarrow> (r, Unlock s')))))"

section \<open>Pipeline messages (package memory)\<close>

text \<open>
  A slice is \<open>None\<close> when nil; \<open>len\<close> and \<open>range\<close> see its elements. An embedded
  \<open>BaseRequestInfo\<close> is a field of its own here.
\<close>

definition elems :: "'a list option \<Rightarrow> 'a list" where
  "elems xs = (case xs of None \<Rightarrow> [] | Some l \<Rightarrow> l)"

record BaseRequestInfo =
  UserID :: string
  AgentID :: string
  RunID :: string
  ActorID :: string
  Metadata :: gomap

record Message =
  Role :: string
  Content :: string
  Name :: string

record AddMemoryRequest =
  Add_BaseRequestInfo :: BaseRequestInfo
  Messages :: "Message list option"
  Infer :: bool
  MemoryType :: string
  Prompt :: string

record ProcessedMemoryData =
  Processed_BaseRequestInfo :: BaseRequestInfo
  OriginalMessages :: "Message list option"
  ProcessedText :: string
  Processed_MemoryID :: string
  ExtractedFacts :: "string list option"

text \<open>
  A \<open>float32\<close> is the real it denotes, or one of the three values JSON cannot write. The
  decoder's rounding of a literal to the nearest \<open>float32\<close> and its range check are left
  out.
\<close>

datatype float32 = Float32 real | NaN | Inf bool

record EmbeddingData =
  Embedding_BaseRequestInfo :: BaseRequestInfo
  Embedding_MemoryID :: string
  TextToEmbed :: string
  Embedding :: "float32 list option"
  Embedding_ProcessedText :: string

record Entity =
  Entity_ID :: string
  Entity_Type :: string
  Entity_Name :: string

record Relation =
  SourceID :: string
  TargetID :: string
  RelationshipType :: string

record GraphStoreStorageData =
  Graph_BaseRequestInfo :: BaseRequestInfo
  Graph_MemoryID :: string
  TextForGraph :: string
  Entities :: "Entity list option"
  Relationships :: "Relation list option"

definition BaseRequestInfo_zero :: BaseRequestInfo where
  "BaseRequestInfo_zero = \<lparr>UserID = [], AgentID = [], RunID = [], ActorID = [], Metadata = None\<rparr>"

definition Message_zero :: Message where
  "Message_zero = \<lparr>Role = [], Content = [], Name = []\<rparr>"

definition AddMemoryRequest_zero :: AddMemoryRequest where
  "AddMemoryRequest_zero =
     \<lparr>Add_BaseRequestInfo = BaseRequestInfo_zero, Messages = None, Infer = False, MemoryType = [],
      Prompt = []\<rparr>"

definition ProcessedMemoryData_zero :: ProcessedMemoryData where
  "ProcessedMemoryData_zero =
     \<lparr>Processed_BaseRequestInfo = BaseRequestInfo_zero, OriginalMessages = None, ProcessedText = [],
      Processed_MemoryID = [], ExtractedFacts = None\<rparr>"

definition EmbeddingData_zero :: EmbeddingData where
  "EmbeddingData_zero =
     \<lparr>Embedding_BaseRequestInfo = BaseRequestInfo_zero, Embedding_MemoryID = [], TextToEmbed = [],
      Embedding = None, Embedding_ProcessedText = []\<rparr>"

definition Entity_zero :: Entity where
  "Entity_zero = \<lparr>Entity_ID = [], Entity_Type = [], Entity_Name = []\<rparr>"

definition Relation_zero :: Relation where
  "Relation_zero = \<lparr>SourceID = [], TargetID = [], RelationshipType = []\<rparr>"

definition GraphStoreStorageData_zero :: GraphStoreStorageData where
  "GraphStoreStorageData_zero =
     \<lparr>Graph_BaseRequestInfo = BaseRequestInfo_zero, Graph_MemoryID = [], TextForGraph = [],
      Entities = None, Relationships = None\<rparr>"

subsection \<open>Encoding (\<open>json.Marshal\<close>)\<close>

text \<open>
  Members come in field order, those of the embedded struct first. \<open>omitempty\<close> drops an
  empty string, a nil or empty slice or map.
\<close>

definition omitempty :: "string \<Rightarrow> string \<Rightarrow> (string \<times> json) list" where
  "omitempty key s = (if s = [] then [] else [(key, JString s)])"

definition slice_json :: "('a \<Rightarrow> json) \<Rightarrow> 'a list option \<Rightarrow> json" where
  "slice_json enc xs = (case xs of None \<Rightarrow> JNull | Some l \<Rightarrow> JArr (map enc l))"

definition omitempty_slice :: "string \<Rightarrow> ('a \<Rightarrow> json) \<Rightarrow> 'a list option \<Rightarrow> (string \<times> json) list" where
  "omitempty_slice key enc xs = (if elems xs = [] then [] else [(key, JArr (map enc (elems xs)))])"

definition omitempty_map :: "string \<Rightarrow> gomap \<Rightarrow> error + (string \<times> json) list" where
  "omitempty_map key m =
     (if elems m = [] then Inr []
      else (case to_json_members (elems m) of Inl e \<Rightarrow> Inl e | Inr ms \<Rightarrow> Inr [(key, JObj ms)]))"

definition BaseRequestInfo_members :: "BaseRequestInfo \<Rightarrow> error + (string \<times> json) list" where
  "BaseRequestInfo_members b =
     (case omitempty_map ''metadata'' (Metadata b) of
        Inl e \<Rightarrow> Inl e
      | Inr md \<Rightarrow>
          Inr (omitempty ''user_id'' (UserID b) @ omitempty ''agent_id'' (AgentID b)
                 @ omitempty ''run_id'' (RunID b) @ omitempty ''actor_id'' (ActorID b) @ md))"

definition Message_json :: "Message \<Rightarrow> json" where
  "Message_json m =
     JObj ([(''role'', JString (Role m)), (''content'', JString (Content m))]
             @ omitempty ''name'' (Name m))"

definition marshal_AddMemoryRequest :: "AddMemoryRequest \<Rightarrow> error + json" where
  "marshal_AddMemoryRequest r =
     (case BaseRequestInfo_members (Add_BaseRequestInfo r) of
        Inl e \<Rightarrow> Inl e
      | Inr base \<Rightarrow>
          Inr (JObj (base
                 @ [(''messages'', slice_json Message_json (Messages r)), (''infer'', JBool (Infer r))]
                 @ omitempty ''memory_type'' (MemoryType r) @ omitempty ''prompt'' (Prompt r))))"

definition marshal_ProcessedMemoryData :: "ProcessedMemoryData \<Rightarrow> error + json" where
  "marshal_ProcessedMemoryData d =
     (case BaseRequestInfo_members (Processed_BaseRequestInfo d) of
        Inl e \<Rightarrow> Inl e
      | Inr base \<Rightarrow>
          Inr (JObj (base
                 @ [(''original_messages'', slice_json Message_json (OriginalMessages d)),
                    (''processed_text'', JString (ProcessedText d)),
                    (''memory_id'', JString (Processed_MemoryID d))]
                 @ omitempty_slice ''extracted_facts'' JString (ExtractedFacts d))))"

fun floats_json :: "float32 list \<Rightarrow> error + json list" where
  "floats_json [] = Inr []"
| "floats_json (Float32 r # fs) =
     (case floats_json fs of Inl e \<Rightarrow> Inl e | Inr js \<Rightarrow> Inr (JNum r # js))"
| "floats_json (NaN # fs) = Inl ''json: unsupported value: NaN''"
| "floats_json (Inf positive # fs) =
     Inl (''json: unsupported value: '' @ (if positive then ''+Inf'' else ''-Inf''))"

definition marshal_EmbeddingData :: "EmbeddingData \<Rightarrow> error + json" where
  "marshal_EmbeddingData d =
     (case BaseRequestInfo_members (Embedding_BaseRequestInfo d) of
        Inl e \<Rightarrow> Inl e
      | Inr base \<Rightarrow>
          (case (case Embedding d of
                   None \<Rightarrow> Inr JNull
                 | Some fs \<Rightarrow> (case floats_json fs of Inl e \<Rightarrow> Inl e | Inr js \<Rightarrow> Inr (JArr js))) of
             Inl e \<Rightarrow> Inl e
           | Inr embedding \<Rightarrow>
               Inr (JObj (base
                      @ [(''memory_id'', JString (Embedding_MemoryID d)),
                         (''text_to_embed'', JString (TextToEmbed d)),
                         (''embedding'', embedding),
                         (''processed_text'', JString (Embedding_ProcessedText d))]))))"

definition Entity_json :: "Entity \<Rightarrow> json" where
  "Entity_json e =
     JObj [(''id'', JString (Entity_ID e)), (''type'', JString (Entity_Type e)),
           (''name'', JString (Entity_Name e))]"

definition Relation_json :: "Relation \<Rightarrow> json" where
  "Relation_json r =
     JObj [(''source_id'', JString (SourceID r)), (''target_id'', JString (TargetID r)),
           (''relationship_type'', JString (RelationshipType r))]"

definition marshal_GraphStoreStorageData :: "GraphStoreStorageData \<Rightarrow> error + json" where
  "marshal_GraphStoreStorageData d =
     (case BaseRequestInfo_members (Graph_BaseRequestInfo d) of
        Inl e \<Rightarrow> Inl e
      | Inr base \<Rightarrow>
          Inr (JObj (base
                 @ [(''memory_id'', JString (Graph_MemoryID d)),
                    (''text_for_graph'', JString (TextForGraph d))]
                 @ omitempty_slice ''entities'' Entity_json (Entities d)
                 @ omitempty_slice ''relationships'' Relation_json (Relationships d))))"

text \<open>
  \<open>MemoryEvent\<close>: the timestamp is written by \<open>time.Time\<close>'s own \<open>MarshalJSON\<close>,
  the parameter \<open>marshal_time\<close>.
\<close>

definition marshal_MemoryEvent :: "(time \<Rightarrow> error + string) \<Rightarrow> MemoryEvent \<Rightarrow> error + json" where
  "marshal_MemoryEvent marshal_time e =
     (case marshal_time (Timestamp e) of
        Inl err \<Rightarrow> Inl err
      | Inr stamp \<Rightarrow>
          (case omitempty_map ''details'' (Details e) of
             Inl err \<Rightarrow> Inl err
           | Inr dt \<Rightarrow>
               Inr (JObj ([(''event_id'', JString (EventID e))]
                      @ omitempty ''memory_id'' (Event_MemoryID e)
                      @ [(''event_type'', JString (EventType e)), (''timestamp'', JStr stamp)]
                      @ omitempty ''user_id'' (Event_UserID e) @ omitempty ''agent_id'' (Event_AgentID e)
                      @ omitempty ''run_id'' (Event_RunID e) @ omitempty ''actor_id'' (Event_ActorID e)
                      @ omitempty ''old_memory'' (OldMemory e) @ omitempty ''new_memory'' (NewMemory e)
                      @ omitempty ''search_query'' (SearchQuery e) @ dt))))"

subsection \<open>Decoding (\<open>json.Unmarshal\<close>)\<close>

text \<open>
  A slice member: \<open>null\<close> makes the slice nil, an array is decoded element by element
  into fresh elements (the first mismatch is kept, decoding goes on), anything else is a
  mismatch.
\<close>

fun decode_elems :: "(json \<Rightarrow> 'a \<Rightarrow> error option \<times> 'a) \<Rightarrow> 'a \<Rightarrow> json list \<Rightarrow> error option \<times> 'a list" where
  "decode_elems elem zero [] = (None, [])"
| "decode_elems elem zero (v # vs) =
     (case elem v zero of
        (e, x) \<Rightarrow>
          (case decode_elems elem zero vs of
             (e', xs) \<Rightarrow> ((case e of Some err \<Rightarrow> Some err | None \<Rightarrow> e'), x # xs)))"

definition slice_member ::
  "(json \<Rightarrow> 'a \<Rightarrow> error option \<times> 'a) \<Rightarrow> 'a \<Rightarrow> error \<Rightarrow> json \<Rightarrow> 'a list option
     \<Rightarrow> error option \<times> 'a list option"
where
  "slice_member elem zero mismatch v cur =
     (case v of
        JNull \<Rightarrow> (None, None)
      | JArr vs \<Rightarrow> (case decode_elems elem zero vs of (e, xs) \<Rightarrow> (e, Some xs))
      | _ \<Rightarrow> (Some mismatch, cur))"

definition float32_member :: "string \<Rightarrow> string \<Rightarrow> json \<Rightarrow> float32 \<Rightarrow> error option \<times> float32" where
  "float32_member struct key v cur =
     (case v of
        JNum r \<Rightarrow> (None, Float32 r)
      | JNull \<Rightarrow> (None, cur)
      | _ \<Rightarrow> (Some (type_error_field v struct key ''float32''), cur))"

definition BaseRequestInfo_member ::
  "string \<Rightarrow> string \<Rightarrow> json \<Rightarrow> BaseRequestInfo \<Rightarrow> (error option \<times> BaseRequestInfo) option"
where
  "BaseRequestInfo_member struct k v b =
     (if is_key ''user_id'' k then
        Some (case string_member struct ''user_id'' v (UserID b) of (e, x) \<Rightarrow> (e, b\<lparr>UserID := x\<rparr>))
      else if is_key ''agent_id'' k then
        Some (case string_member struct ''agent_id'' v (AgentID b) of (e, x) \<Rightarrow> (e, b\<lparr>AgentID := x\<rparr>))
      else if is_key ''run_id'' k then
        Some (case string_member struct ''run_id'' v (RunID b) of (e, x) \<Rightarrow> (e, b\<lparr>RunID := x\<rparr>))
      else if is_key ''actor_id'' k then
        Some (case string_member struct ''actor_id'' v (ActorID b) of (e, x) \<Rightarrow> (e, b\<lparr>ActorID := x\<rparr>))
      else if is_key ''metadata'' k then
        Some (case map_value v (Metadata b)
                     (type_error_field v struct ''metadata'' ''map[string]interface {}'') of
                (e, x) \<Rightarrow> (e, b\<lparr>Metadata := x\<rparr>))
      else None)"

definition Message_member :: "string \<Rightarrow> string \<Rightarrow> string \<Rightarrow> json \<Rightarrow> Message \<Rightarrow> error option \<times> Message" where
  "Message_member struct path k v m =
     (if is_key ''role'' k then
        (case string_member struct (path @ ''.role'') v (Role m) of (e, x) \<Rightarrow> (e, m\<lparr>Role := x\<rparr>))
      else if is_key ''content'' k then
        (case string_member struct (path @ ''.content'') v (Content m) of
           (e, x) \<Rightarrow> (e, m\<lparr>Content := x\<rparr>))
      else if is_key ''name'' k then
        (case string_member struct (path @ ''.name'') v (Name m) of (e, x) \<Rightarrow> (e, m\<lparr>Name := x\<rparr>))
      else (None, m))"

definition Message_elem :: "string \<Rightarrow> string \<Rightarrow> json \<Rightarrow> Message \<Rightarrow> error option \<times> Message" where
  "Message_elem struct path v m =
     (case v of
        JNull \<Rightarrow> (None, m)
      | JObj kvs \<Rightarrow> decode_members (Message_member struct path) kvs m
      | _ \<Rightarrow> (Some (type_error_field v struct path ''memory.Message''), m))"

definition Messages_member ::
  "string \<Rightarrow> string \<Rightarrow> json \<Rightarrow> Message list option \<Rightarrow> error option \<times> Message list option"
where
  "Messages_member struct key v cur =
     slice_member (Message_elem struct key) Message_zero
       (type_error_field v struct key ''[]memory.Message'') v cur"

definition AddMemoryRequest_member ::
  "string \<Rightarrow> json \<Rightarrow> AddMemoryRequest \<Rightarrow> error option \<times> AddMemoryRequest"
where
  "AddMemoryRequest_member k v r =
     (case BaseRequestInfo_member ''AddMemoryRequest'' k v (Add_BaseRequestInfo r) of
        Some (e, b) \<Rightarrow> (e, r\<lparr>Add_BaseRequestInfo := b\<rparr>)
      | None \<Rightarrow>
          if is_key ''messages'' k then
            (case Messages_member ''AddMemoryRequest'' ''messages'' v (Messages r) of
               (e, x) \<Rightarrow> (e, r\<lparr>Messages := x\<rparr>))
          else if is_key ''infer'' k then
            (case bool_member ''AddMemoryRequest'' ''infer'' v (Infer r) of
               (e, x) \<Rightarrow> (e, r\<lparr>Infer := x\<rparr>))
          else if is_key ''memory_type'' k then
            (case string_member ''AddMemoryRequest'' ''memory_type'' v (MemoryType r) of
               (e, x) \<Rightarrow> (e, r\<lparr>MemoryType := x\<rparr>))
          else if is_key ''prompt'' k then
            (case string_member ''AddMemoryRequest'' ''prompt'' v (Prompt r) of
               (e, x) \<Rightarrow> (e, r\<lparr>Prompt := x\<rparr>))
          else (None, r))"

definition unmarshal_AddMemoryRequest :: "payload \<Rightarrow> error option \<times> AddMemoryRequest" where
  "unmarshal_AddMemoryRequest data =
     unmarshal_struct ''memory.AddMemoryRequest'' AddMemoryRequest_member data AddMemoryRequest_zero"

definition ProcessedMemoryData_member ::
  "string \<Rightarrow> json \<Rightarrow> ProcessedMemoryData \<Rightarrow> error option \<times> ProcessedMemoryData"
where
  "ProcessedMemoryData_member k v d =
     (case BaseRequestInfo_member ''ProcessedMemoryData'' k v (Processed_BaseRequestInfo d) of
        Some (e, b) \<Rightarrow> (e, d\<lparr>Processed_BaseRequestInfo := b\<rparr>)
      | None \<Rightarrow>
          if is_key ''original_messages'' k then
            (case Messages_member ''ProcessedMemoryData'' ''original_messages'' v (OriginalMessages d) of
               (e, x) \<Rightarrow> (e, d\<lparr>OriginalMessages := x\<rparr>))
          else if is_key ''processed_text'' k then
            (case string_member ''ProcessedMemoryData'' ''processed_text'' v (ProcessedText d) of
               (e, x) \<Rightarrow> (e, d\<lparr>ProcessedText := x\<rparr>))
          else if is_key ''memory_id'' k then
            (case string_member ''ProcessedMemoryData'' ''memory_id'' v (Processed_MemoryID d) of
               (e, x) \<Rightarrow> (e, d\<lparr>Processed_MemoryID := x\<rparr>))
          else if is_key ''extracted_facts'' k then
            (case slice_member (string_member ''ProcessedMemoryData'' ''extracted_facts'') []
                    (type_error_field v ''ProcessedMemoryData'' ''extracted_facts'' ''[]string'') v
                    (ExtractedFacts d) of
               (e, x) \<Rightarrow> (e, d\<lparr>ExtractedFacts := x\<rparr>))
          else (None, d))"

definition unmarshal_ProcessedMemoryData :: "payload \<Rightarrow> error option \<times> ProcessedMemoryData" where
  "unmarshal_ProcessedMemoryData data =
     unmarshal_struct ''memory.ProcessedMemoryData'' ProcessedMemoryData_member data
       ProcessedMemoryData_zero"

definition EmbeddingData_member :: "string \<Rightarrow> json \<Rightarrow> EmbeddingData \<Rightarrow> error option \<times> EmbeddingData" where
  "EmbeddingData_member k v d =
     (case BaseRequestInfo_member ''EmbeddingData'' k v (Embedding_BaseRequestInfo d) of
        Some (e, b) \<Rightarrow> (e, d\<lparr>Embedding_BaseRequestInfo := b\<rparr>)
      | None \<Rightarrow>
          if is_key ''memory_id'' k then
            (case string_member ''EmbeddingData'' ''memory_id'' v (Embedding_MemoryID d) of
               (e, x) \<Rightarrow> (e, d\<lparr>Embedding_MemoryID := x\<rparr>))
          else if is_key ''text_to_embed'' k then
            (case string_member ''EmbeddingData'' ''text_to_embed'' v (TextToEmbed d) of
               (e, x) \<Rightarrow> (e, d\<lparr>TextToEmbed := x\<rparr>))
          else if is_key ''embedding'' k then
            (case slice_member (float32_member ''EmbeddingData'' ''embedding'') (Float32 0)
                    (type_error_field v ''EmbeddingData'' ''embedding'' ''[]float32'') v (Embedding d) of
               (e, x) \<Rightarrow> (e, d\<lparr>Embedding := x\<rparr>))
          else if is_key ''processed_text'' k then
            (case string_member ''EmbeddingData'' ''processed_text'' v (Embedding_ProcessedText d) of
               (e, x) \<Rightarrow> (e, d\<lparr>Embedding_ProcessedText := x\<rparr>))
          else (None, d))"

definition unmarshal_EmbeddingData :: "payload \<Rightarrow> error option \<times> EmbeddingData" where
  "unmarshal_EmbeddingData data =
     unmarshal_struct ''memory.EmbeddingData'' EmbeddingData_member data EmbeddingData_zero"

definition Entity_member :: "string \<Rightarrow> string \<Rightarrow> json \<Rightarrow> Entity \<Rightarrow> error option \<times> Entity" where
  "Entity_member path k v x =
     (if is_key ''id'' k then
        (case string_member ''GraphStoreStorageData'' (path @ ''.id'') v (Entity_ID x) of
           (e, s) \<Rightarrow> (e, x\<lparr>Entity_ID := s\<rparr>))
      else if is_key ''type'' k then
        (case string_member ''GraphStoreStorageData'' (path @ ''.type'') v (Entity_Type x) of
           (e, s) \<Rightarrow> (e, x\<lparr>Entity_Type := s\<rparr>))
      else if is_key ''name'' k then
        (case string_member ''GraphStoreStorageData'' (path @ ''.name'') v (Entity_Name x) of
           (e, s) \<Rightarrow> (e, x\<lparr>Entity_Name := s\<rparr>))
      else (None, x))"

definition Entity_elem :: "json \<Rightarrow> Entity \<Rightarrow> error option \<times> Entity" where
  "Entity_elem v x =
     (case v of
        JNull \<Rightarrow> (None, x)
      | JObj kvs \<Rightarrow> decode_members (Entity_member ''entities'') kvs x
      | _ \<Rightarrow> (Some (type_error_field v ''GraphStoreStorageData'' ''entities'' ''memory.Entity''), x))"

definition Relation_member :: "string \<Rightarrow> string \<Rightarrow> json \<Rightarrow> Relation \<Rightarrow> error option \<times> Relation" where
  "Relation_member path k v x =
     (if is_key ''source_id'' k then
        (case string_member ''GraphStoreStorageData'' (path @ ''.source_id'') v (SourceID x) of
           (e, s) \<Rightarrow> (e, x\<lparr>SourceID := s\<rparr>))
      else if is_key ''target_id'' k then
        (case string_member ''GraphStoreStorageData'' (path @ ''.target_id'') v (TargetID x) of
           (e, s) \<Rightarrow> (e, x\<lparr>TargetID := s\<rparr>))
      else if is_key ''relationship_type'' k then
        (case string_member ''GraphStoreStorageData'' (path @ ''.relationship_type'') v
                (RelationshipType x) of
           (e, s) \<Rightarrow> (e, x\<lparr>RelationshipType := s\<rparr>))
      else (None, x))"

definition Relation_elem :: "json \<Rightarrow> Relation \<Rightarrow> error option \<times> Relation" where
  "Relation_elem v x =
     (case v of
        JNull \<Rightarrow> (None, x)
      | JObj kvs \<Rightarrow> decode_members (Relation_member ''relationships'') kvs x
      | _ \<Rightarrow> (Some (type_error_field v ''GraphStoreStorageData'' ''relationships'' ''memory.Relation''), x))"

definition GraphStoreStorageData_member ::
  "string \<Rightarrow> json \<Rightarrow> GraphStoreStorageData \<Rightarrow> error option \<times> GraphStoreStorageData"
where
  "GraphStoreStorageData_member k v d =
     (case BaseRequestInfo_member ''GraphStoreStorageData'' k v (Graph_BaseRequestInfo d) of
        Some (e, b) \<Rightarrow> (e, d\<lparr>Graph_BaseRequestInfo := b\<rparr>)
      | None \<Rightarrow>
          if is_key ''memory_id'' k then
            (case string_member ''GraphStoreStorageData'' ''memory_id'' v (Graph_MemoryID d) of
               (e, x) \<Rightarrow> (e, d\<lparr>Graph_MemoryID := x\<rparr>))
          else if is_key ''text_for_graph'' k then
            (case string_member ''GraphStoreStorageData'' ''text_for_graph'' v (TextForGraph d) of
               (e, x) \<Rightarrow> (e, d\<lparr>TextForGraph := x\<rparr>))
          else if is_key ''entities'' k then
            (case slice_member Entity_elem Entity_zero
                    (type_error_field v ''GraphStoreStorageData'' ''entities'' ''[]memory.Entity'') v
                    (Entities d) of
               (e, x) \<Rightarrow> (e, d\<lparr>Entities := x\<rparr>))
          else if is_key ''relationships'' k then
            (case slice_member Relation_elem Relation_zero
                    (type_error_field v ''GraphStoreStorageData'' ''relationships'' ''[]memory.Relation'')
                    v (Relationships d) of
               (e, x) \<Rightarrow> (e, d\<lparr>Relationships := x\<rparr>))
          else (None, d))"

definition unmarshal_GraphStoreStorageData :: "payload \<Rightarrow> error option \<times> GraphStoreStorageData" where
  "unmarshal_GraphStoreStorageData data =
     unmarshal_struct ''memory.GraphStoreStorageData'' GraphStoreStorageData_member data
       GraphStoreStorageData_zero"

section \<open>Collaborators and configuration\<close>

text \<open>
  The configuration (\<open>memory.Config\<close>); the two store configurations are pointers,
  \<open>None\<close> when nil.
\<close>

record Config =
  NATSAddress :: string
  OpenAIAPIKey :: string
  TopicMemoryAddReceived :: string
  TopicMemoryProcess :: string
  TopicMemoryEmbed :: string
  TopicMemoryVectorStoreAdd :: string
  TopicMemoryGraphStoreAdd :: string
  TopicMemoryHistoryLog :: string
  TopicMemorySearch :: string
  TopicMemoryGet :: string
  TopicMemoryUpdate :: string
  TopicMemoryDelete :: string
  EnableGraphStore :: bool
  EnableInfer :: bool
  GraphConfig :: "GraphStoreConfig option"
  Config_VectorStoreConfig :: "VectorStoreConfig option"
  CustomFactExtractionPrompt :: string
  CustomUpdateMemoryPrompt :: string

text \<open>
  The interfaces the workers are given are known by what their methods return. A call
  is written down with its result in the \<open>world\<close>, in the order the calls are made:
  everything handed to the bus, to the vector store and to the graph database.
\<close>

record NATSClient =
  Publish_result :: "string \<Rightarrow> payload \<Rightarrow> error option"

record OpenAIClient =
  ExtractFacts :: "string list \<Rightarrow> string \<Rightarrow> error + string"
  GetEmbedding :: "string \<Rightarrow> error + float32 list option"
  ExtractGraphData :: "string \<Rightarrow> string \<Rightarrow> error + Entity list option \<times> Relation list option"

record VectorInput =
  VectorInput_ID :: string
  VectorInput_Embedding :: "float32 list option"
  VectorInput_Payload :: gomap

record VectorStore =
  InsertVectors_result :: "string \<Rightarrow> VectorInput list \<Rightarrow> error option"

record Mutation =
  Mutation_memoryId :: string
  Mutation_entities :: "Entity list option"
  Mutation_relationships :: "Relation list option"

record DgraphClient =
  Mutate_result :: "Mutation \<Rightarrow> error option"

record world =
  published :: "(string \<times> payload \<times> error option) list"
  inserted :: "(string \<times> VectorInput list \<times> error option) list"
  mutated :: "(Mutation \<times> error option) list"

definition Publish :: "NATSClient \<Rightarrow> string \<Rightarrow> payload \<Rightarrow> world \<Rightarrow> error option \<times> world" where
  "Publish nc topic data w =
     (let err = Publish_result nc topic data
      in (err, w\<lparr>published := published w @ [(topic, data, err)]\<rparr>))"

definition InsertVectors ::
  "VectorStore \<Rightarrow> string \<Rightarrow> VectorInput list \<Rightarrow> world \<Rightarrow> error option \<times> world"
where
  "InsertVectors vs collectionName vectors w =
     (let err = InsertVectors_result vs collectionName vectors
      in (err, w\<lparr>inserted := inserted w @ [(collectionName, vectors, err)]\<rparr>))"

definition Mutate :: "DgraphClient \<Rightarrow> Mutation \<Rightarrow> world \<Rightarrow> error option \<times> world" where
  "Mutate dg data w =
     (let err = Mutate_result dg data in (err, w\<lparr>mutated := mutated w @ [(data, err)]\<rparr>))"

text \<open>
  What a call draws from its surroundings: the identifiers \<open>uuid.New()\<close> returns, first
  to last, the clock's readings, first to last, and how the \<open>time\<close> package writes an
  instant.
\<close>

record runtime =
  uuid_New :: "nat \<Rightarrow> uuid"
  time_Now :: "nat \<Rightarrow> time"
  Time_MarshalJSON :: "time \<Rightarrow> error + string"
  Time_Format_RFC3339Nano :: "time \<Rightarrow> string"

text \<open>An \<open>int\<close> held in an \<open>interface{}\<close>, such as a length.\<close>

definition go_int :: "nat \<Rightarrow> goval" where
  "go_int n = GOther (Inr (JNum (real n)))"

section \<open>Request validation\<close>

function show_nat :: "nat \<Rightarrow> string" where
  "show_nat n =
     (if n < 10 then [''0123456789'' ! n] else show_nat (n div 10) @ [''0123456789'' ! (n mod 10)])"
  by pat_completeness auto
termination
  by (relation "measure id") auto

text \<open>
  \<open>Message\<close>: \<open>Role\<close> is \<open>required,oneof=user assistant system\<close>, \<open>Content\<close> is
  \<open>required\<close>. \<open>AddMemoryRequest\<close>: \<open>Messages\<close> is \<open>required,min=1,dive\<close>; a nil
  slice fails \<open>required\<close>, an empty one \<open>min\<close>, and the elements are validated under
  their index.
\<close>

definition Message_fields :: "string \<Rightarrow> Message \<Rightarrow> FieldError list" where
  "Message_fields ns m =
     required_oneof ns ''Role'' [''user'', ''assistant'', ''system''] (Role m)
       @ required ns ''Content'' (Content m)"

definition Message_Validate :: "Message \<Rightarrow> error option" where
  "Message_Validate m = validate_result (Message_fields ''Message.'' m)"

fun dive_Messages :: "nat \<Rightarrow> Message list \<Rightarrow> FieldError list" where
  "dive_Messages i [] = []"
| "dive_Messages i (m # ms) =
     Message_fields (''AddMemoryRequest.Messages['' @ show_nat i @ ''].'') m @ dive_Messages (Suc i) ms"

definition AddMemoryRequest_fields :: "AddMemoryRequest \<Rightarrow> FieldError list" where
  "AddMemoryRequest_fields r =
     (case Messages r of
        None \<Rightarrow> failed ''AddMemoryRequest.'' ''Messages'' ''required''
      | Some [] \<Rightarrow> failed ''AddMemoryRequest.'' ''Messages'' ''min''
      | Some ms \<Rightarrow> dive_Messages 0 ms)"

definition AddMemoryRequest_Validate :: "AddMemoryRequest \<Rightarrow> error option" where
  "AddMemoryRequest_Validate r = validate_result (AddMemoryRequest_fields r)"

section \<open>Ingress service\<close>

text \<open>
  \<open>memoryServiceImpl.Add\<close>, with the service's NATS client (\<open>None\<close> when nil) and
  configuration.
\<close>

definition Add ::
  "runtime \<Rightarrow> NATSClient option \<Rightarrow> Config \<Rightarrow> AddMemoryRequest \<Rightarrow> world \<Rightarrow> (error + string) \<times> world"
where
  "Add rt nc cfg req w =
     (case AddMemoryRequest_Validate req of
        Some err \<Rightarrow> (Inl (''invalid AddMemoryRequest: '' @ err), w)
      | None \<Rightarrow>
          (let memoryID = uuid_String (uuid_New rt 0) in
           case marshal_AddMemoryRequest req of
             Inl err \<Rightarrow> (Inl (''failed to marshal AddMemoryRequest: '' @ err), w)
           | Inr jsonData \<Rightarrow>
               (case nc of
                  Some c \<Rightarrow>
                    (case Publish c (TopicMemoryAddReceived cfg) (Doc jsonData) w of
                       (Some err, w') \<Rightarrow>
                         (Inl (''failed to publish to NATS topic '' @ TopicMemoryAddReceived cfg
                                 @ '': '' @ err), w')
                     | (None, w') \<Rightarrow> (Inr memoryID, w'))
                | None \<Rightarrow> (Inr memoryID, w))))"

section \<open>Stage workers\<close>

text \<open>
  Each handler takes its worker's fields (a nil interface is \<open>None\<close>), the payload and the
  world, and returns its error with the world it leaves. What the handlers print is left
  out. The values a handler builds on its way are named, so that statements can speak of
  them.
\<close>

definition history_publish ::
  "runtime \<Rightarrow> NATSClient option \<Rightarrow> Config \<Rightarrow> MemoryEvent \<Rightarrow> world \<Rightarrow> world"
where
  "history_publish rt nc cfg historyEvent w =
     (case marshal_MemoryEvent (Time_MarshalJSON rt) historyEvent of
        Inl err \<Rightarrow> w
      | Inr eventData \<Rightarrow>
          (case nc of
             Some c \<Rightarrow> snd (Publish c (TopicMemoryHistoryLog cfg) (Doc eventData) w)
           | None \<Rightarrow> w))"

subsection \<open>Processing\<close>

definition processed_text :: "Message list \<Rightarrow> string" where
  "processed_text msgs = butlast (concat (map (\<lambda>msg. Content msg @ '' '') msgs))"

definition extracted_facts :: "Config \<Rightarrow> OpenAIClient option \<Rightarrow> AddMemoryRequest \<Rightarrow> string list option" where
  "extracted_facts cfg openai addReq =
     (case openai of
        Some ai \<Rightarrow>
          if EnableInfer cfg then
            (case ExtractFacts ai (map Content (elems (Messages addReq)))
                    (CustomFactExtractionPrompt cfg) of
               Inl err \<Rightarrow> None
             | Inr factsString \<Rightarrow> Some [factsString])
          else None
      | None \<Rightarrow> None)"

definition processed_data ::
  "runtime \<Rightarrow> Config \<Rightarrow> OpenAIClient option \<Rightarrow> AddMemoryRequest \<Rightarrow> ProcessedMemoryData"
where
  "processed_data rt cfg openai addReq =
     \<lparr>Processed_BaseRequestInfo = Add_BaseRequestInfo addReq,
      OriginalMessages = Messages addReq,
      ProcessedText = processed_text (elems (Messages addReq)),
      Processed_MemoryID = uuid_String (uuid_New rt 0),
      ExtractedFacts = extracted_facts cfg openai addReq\<rparr>"

definition processed_event ::
  "runtime \<Rightarrow> AddMemoryRequest \<Rightarrow> ProcessedMemoryData \<Rightarrow> MemoryEvent"
where
  "processed_event rt addReq processedData =
     MemoryEvent_zero
       \<lparr>EventID := uuid_String (uuid_New rt 1),
        Event_MemoryID := Processed_MemoryID processedData,
        EventType := ''MEMORY_PROCESSED'',
        Timestamp := time_Now rt 0,
        Event_UserID := UserID (Add_BaseRequestInfo addReq),
        Event_AgentID := AgentID (Add_BaseRequestInfo addReq),
        Event_RunID := RunID (Add_BaseRequestInfo addReq),
        Event_ActorID := ActorID (Add_BaseRequestInfo addReq),
        NewMemory := ProcessedText processedData,
        Details := Some
          [(''original_message_count'', go_int (length (elems (Messages addReq)))),
           (''processed_text_length'', go_int (length (ProcessedText processedData))),
           (''facts_extracted_count'', go_int (length (elems (ExtractedFacts processedData))))]\<rparr>"

definition handleProcessMessage ::
  "runtime \<Rightarrow> NATSClient option \<Rightarrow> Config \<Rightarrow> OpenAIClient option \<Rightarrow> payload \<Rightarrow> world
     \<Rightarrow> error option \<times> world"
where
  "handleProcessMessage rt nc cfg openai data w =
     (case unmarshal_AddMemoryRequest data of
        (Some err, addReq) \<Rightarrow> (Some (''error unmarshalling AddMemoryRequest: '' @ err), w)
      | (None, addReq) \<Rightarrow>
          (let processedData = processed_data rt cfg openai addReq
           in case marshal_ProcessedMemoryData processedData of
                Inl err \<Rightarrow> (Some (''error marshalling ProcessedMemoryData: '' @ err), w)
              | Inr jsonData \<Rightarrow>
                  (let w1 = (case nc of
                               Some c \<Rightarrow> snd (Publish c (TopicMemoryEmbed cfg) (Doc jsonData) w)
                             | None \<Rightarrow> w)
                   in (None, history_publish rt nc cfg (processed_event rt addReq processedData) w1))))"

subsection \<open>Embedding\<close>

definition dummy_embedding :: "float32 list option" where
  "dummy_embedding = Some [Float32 0.0, Float32 0.0, Float32 0.0]"

definition get_embedding :: "OpenAIClient option \<Rightarrow> ProcessedMemoryData \<Rightarrow> error + float32 list option" where
  "get_embedding openai processedData =
     (case openai of
        Some ai \<Rightarrow> GetEmbedding ai (ProcessedText processedData)
      | None \<Rightarrow> Inr dummy_embedding)"

definition embedding_data :: "ProcessedMemoryData \<Rightarrow> float32 list option \<Rightarrow> EmbeddingData" where
  "embedding_data processedData embedding =
     \<lparr>Embedding_BaseRequestInfo = Processed_BaseRequestInfo processedData,
      Embedding_MemoryID = Processed_MemoryID processedData,
      TextToEmbed = ProcessedText processedData,
      Embedding = embedding,
      Embedding_ProcessedText = ProcessedText processedData\<rparr>"

definition graph_store_data :: "ProcessedMemoryData \<Rightarrow> GraphStoreStorageData" where
  "graph_store_data processedData =
     \<lparr>Graph_BaseRequestInfo = Processed_BaseRequestInfo processedData,
      Graph_MemoryID = Processed_MemoryID processedData,
      TextForGraph = ProcessedText processedData,
      Entities = None,
      Relationships = None\<rparr>"

definition handleEmbedMessage ::
  "NATSClient option \<Rightarrow> Config \<Rightarrow> OpenAIClient option \<Rightarrow> payload \<Rightarrow> world \<Rightarrow> error option \<times> world"
where
  "handleEmbedMessage nc cfg openai data w =
     (case unmarshal_ProcessedMemoryData data of
        (Some err, processedData) \<Rightarrow> (Some (''error unmarshalling ProcessedMemoryData: '' @ err), w)
      | (None, processedData) \<Rightarrow>
          (case get_embedding openai processedData of
             Inl err \<Rightarrow> (Some (''error getting embedding: '' @ err), w)
           | Inr embedding \<Rightarrow>
               (case marshal_EmbeddingData (embedding_data processedData embedding) of
                  Inl err \<Rightarrow> (Some (''error marshalling EmbeddingData: '' @ err), w)
                | Inr jsonData \<Rightarrow>
                    (let w1 = (case nc of
                                 Some c \<Rightarrow>
                                   snd (Publish c (TopicMemoryVectorStoreAdd cfg) (Doc jsonData) w)
                               | None \<Rightarrow> w)
                     in if EnableGraphStore cfg then
                          (case marshal_GraphStoreStorageData (graph_store_data processedData) of
                             Inl err \<Rightarrow> (None, w1)
                           | Inr graphJsonData \<Rightarrow>
                               (case nc of
                                  Some c \<Rightarrow>
                                    (None, snd (Publish c (TopicMemoryGraphStoreAdd cfg)
                                                  (Doc graphJsonData) w1))
                                | None \<Rightarrow> (None, w1)))
                        else (None, w1)))))"

subsection \<open>Vector store\<close>

definition collection_name :: "Config \<Rightarrow> string" where
  "collection_name cfg =
     (case Config_VectorStoreConfig cfg of
        Some vsc \<Rightarrow>
          (case VS_Config vsc of
             QdrantPtr qdrantCfg \<Rightarrow> CollectionName qdrantCfg
           | _ \<Rightarrow> ''default_collection'')
      | None \<Rightarrow> ''default_collection'')"

definition vector_input :: "runtime \<Rightarrow> EmbeddingData \<Rightarrow> VectorInput" where
  "vector_input rt embeddingData =
     \<lparr>VectorInput_ID = Embedding_MemoryID embeddingData,
      VectorInput_Embedding = Embedding embeddingData,
      VectorInput_Payload = Some
        ([(''text'', GString (Embedding_ProcessedText embeddingData)),
          (''user_id'', GString (UserID (Embedding_BaseRequestInfo embeddingData))),
          (''agent_id'', GString (AgentID (Embedding_BaseRequestInfo embeddingData))),
          (''run_id'', GString (RunID (Embedding_BaseRequestInfo embeddingData))),
          (''actor_id'', GString (ActorID (Embedding_BaseRequestInfo embeddingData))),
          (''original_text'', GString (TextToEmbed embeddingData)),
          (''timestamp'', GString (Time_Format_RFC3339Nano rt (time_Now rt 0)))]
         @ elems (Metadata (Embedding_BaseRequestInfo embeddingData)))\<rparr>"

definition vector_event :: "runtime \<Rightarrow> string \<Rightarrow> EmbeddingData \<Rightarrow> MemoryEvent" where
  "vector_event rt collectionName embeddingData =
     MemoryEvent_zero
       \<lparr>EventID := uuid_String (uuid_New rt 0),
        Event_MemoryID := Embedding_MemoryID embeddingData,
        EventType := ''VECTOR_STORE_ADD'',
        Timestamp := time_Now rt 1,
        Event_UserID := UserID (Embedding_BaseRequestInfo embeddingData),
        Event_AgentID := AgentID (Embedding_BaseRequestInfo embeddingData),
        Event_RunID := RunID (Embedding_BaseRequestInfo embeddingData),
        Event_ActorID := ActorID (Embedding_BaseRequestInfo embeddingData),
        Details := Some
          [(''collection_name'', GString collectionName),
           (''vector_id'', GString (Embedding_MemoryID embeddingData)),
           (''embedding_dim'', go_int (length (elems (Embedding embeddingData))))]\<rparr>"

definition handleVectorStoreAddMessage ::
  "runtime \<Rightarrow> NATSClient option \<Rightarrow> Config \<Rightarrow> VectorStore option \<Rightarrow> payload \<Rightarrow> world
     \<Rightarrow> error option \<times> world"
where
  "handleVectorStoreAddMessage rt nc cfg vs data w =
     (case unmarshal_EmbeddingData data of
        (Some err, embeddingData) \<Rightarrow> (Some (''error unmarshalling EmbeddingData: '' @ err), w)
      | (None, embeddingData) \<Rightarrow>
          (case vs of
             None \<Rightarrow> (Some ''VectorStore client is nil'', w)
           | Some store \<Rightarrow>
               (case InsertVectors store (collection_name cfg) [vector_input rt embeddingData] w of
                  (Some err, w1) \<Rightarrow> (Some (''error inserting vectors: '' @ err), w1)
                | (None, w1) \<Rightarrow>
                    (None, history_publish rt nc cfg
                             (vector_event rt (collection_name cfg) embeddingData) w1))))"

subsection \<open>Graph store\<close>

definition custom_prompt :: "Config \<Rightarrow> GraphStoreConfig option \<Rightarrow> string" where
  "custom_prompt cfg graphCfg =
     (case graphCfg of
        Some g \<Rightarrow> GS_CustomPrompt g
      | None \<Rightarrow> if CustomFactExtractionPrompt cfg \<noteq> [] then CustomFactExtractionPrompt cfg else [])"

definition extracted_graph_data ::
  "Config \<Rightarrow> OpenAIClient option \<Rightarrow> GraphStoreConfig option \<Rightarrow> GraphStoreStorageData
     \<Rightarrow> GraphStoreStorageData"
where
  "extracted_graph_data cfg openai graphCfg graphData =
     (case openai of
        Some ai \<Rightarrow>
          if length (elems (Entities graphData)) = 0 \<or> length (elems (Relationships graphData)) = 0
          then
            (case ExtractGraphData ai (TextForGraph graphData) (custom_prompt cfg graphCfg) of
               Inl err \<Rightarrow> graphData
             | Inr (entities, relations) \<Rightarrow>
                 graphData\<lparr>Entities := entities, Relationships := relations\<rparr>)
          else graphData
      | None \<Rightarrow> graphData)"

definition mutation :: "GraphStoreStorageData \<Rightarrow> Mutation" where
  "mutation graphData =
     \<lparr>Mutation_memoryId = Graph_MemoryID graphData,
      Mutation_entities = Entities graphData,
      Mutation_relationships = Relationships graphData\<rparr>"

definition graph_event :: "runtime \<Rightarrow> GraphStoreStorageData \<Rightarrow> MemoryEvent" where
  "graph_event rt graphData =
     MemoryEvent_zero
       \<lparr>EventID := uuid_String (uuid_New rt 0),
        Event_MemoryID := Graph_MemoryID graphData,
        EventType := ''GRAPH_STORE_ADD'',
        Timestamp := time_Now rt 0,
        Event_UserID := UserID (Graph_BaseRequestInfo graphData),
        Event_AgentID := AgentID (Graph_BaseRequestInfo graphData),
        Event_RunID := RunID (Graph_BaseRequestInfo graphData),
        Event_ActorID := ActorID (Graph_BaseRequestInfo graphData),
        Details := Some
          [(''entities_count'', go_int (length (elems (Entities graphData)))),
           (''relationships_count'', go_int (length (elems (Relationships graphData))))]\<rparr>"

definition handleGraphStoreAddMessage ::
  "runtime \<Rightarrow> NATSClient option \<Rightarrow> Config \<Rightarrow> OpenAIClient option \<Rightarrow> DgraphClient option
     \<Rightarrow> GraphStoreConfig option \<Rightarrow> payload \<Rightarrow> world \<Rightarrow> error option \<times> world"
where
  "handleGraphStoreAddMessage rt nc cfg openai dg graphCfg data w =
     (case unmarshal_GraphStoreStorageData data of
        (Some err, decoded) \<Rightarrow> (Some (''error unmarshalling GraphStoreStorageData: '' @ err), w)
      | (None, decoded) \<Rightarrow>
          (case dg of
             None \<Rightarrow> (Some ''Dgraph client is nil'', w)
           | Some client \<Rightarrow>
               (let graphData = extracted_graph_data cfg openai graphCfg decoded
                in if length (elems (Entities graphData)) > 0
                      \<or> length (elems (Relationships graphData)) > 0
                   then
                     (case Mutate client (mutation graphData) w of
                        (Some err, w1) \<Rightarrow> (Some (''error mutating graph data: '' @ err), w1)
                      | (None, w1) \<Rightarrow> (None, history_publish rt nc cfg (graph_event rt graphData) w1))
                   else (None, history_publish rt nc cfg (graph_event rt graphData) w))))"

text \<open>
  The guards of the workers' \<open>Start\<close>: whether a worker gets as far as listening on its
  topic. Without a NATS client none does, and the graph worker does not while the graph
  store is disabled.
\<close>

definition Worker_listens :: "NATSClient option \<Rightarrow> bool" where
  "Worker_listens nc = (nc \<noteq> None)"

definition DgraphWorker_listens :: "NATSClient option \<Rightarrow> Config \<Rightarrow> bool" where
  "DgraphWorker_listens nc cfg = (if \<not> EnableGraphStore cfg then False else nc \<noteq> None)"

section \<open>Vocabulary of the statements\<close>

text \<open>
  A dynamic value is \<open>normal\<close> when it is built from the forms JSON decoding produces
  and its strings and keys are valid UTF-8: encoding and decoding it gives it back. \<open>reread\<close> is a details map after its trip
  through the \<open>details\<close> column.
\<close>

fun normal :: "goval \<Rightarrow> bool"
  and normal_list :: "goval list \<Rightarrow> bool"
  and normal_members :: "(string \<times> goval) list \<Rightarrow> bool"
where
  "normal GNil = True"
| "normal (GBool b) = True"
| "normal (GFloat64 r) = True"
| "normal (GString s) = valid_utf8 s"
| "normal (GSlice xs) = normal_list xs"
| "normal (GMap kvs) = normal_members kvs"
| "normal (GOther r) = False"
| "normal_list [] = True"
| "normal_list (x # xs) = (normal x \<and> normal_list xs)"
| "normal_members [] = True"
| "normal_members ((k, x) # kvs) = (valid_utf8 k \<and> normal x \<and> normal_members kvs)"

definition normal_map :: "gomap \<Rightarrow> bool" where
  "normal_map m = (case m of None \<Rightarrow> True | Some kvs \<Rightarrow> normal_members kvs)"


text \<open>The row \<open>LogEvent\<close> inserts for an event whose details encode.\<close>

definition stored_row :: "MemoryEvent \<Rightarrow> row" where
  "stored_row e = insert_args e (case marshal_map (Details e) of Inl err \<Rightarrow> JNull | Inr j \<Rightarrow> j)"


text \<open>A map is \<open>encodable\<close> when \<open>json.Marshal\<close> accepts every value in it.\<close>

definition encodable :: "gomap \<Rightarrow> bool" where
  "encodable m = (\<not> isl (to_json_members (elems m)))"

text \<open>
  The surroundings of the examples: the topic names the specification lists, a world in
  which nothing has happened yet, a clock and an identifier source.
\<close>

definition example_Config :: Config where
  "example_Config =
     \<lparr>NATSAddress = ''nats://localhost:4222'',
      OpenAIAPIKey = ''sk-examplekey'',
      TopicMemoryAddReceived = ''memory.add.received'',
      TopicMemoryProcess = ''memory.process'',
      TopicMemoryEmbed = ''memory.embed'',
      TopicMemoryVectorStoreAdd = ''memory.vectorstore.add'',
      TopicMemoryGraphStoreAdd = ''memory.graphstore.add'',
      TopicMemoryHistoryLog = ''memory.history.log'',
      TopicMemorySearch = ''memory.search'',
      TopicMemoryGet = ''memory.get'',
      TopicMemoryUpdate = ''memory.update'',
      TopicMemoryDelete = ''memory.delete'',
      EnableGraphStore = True,
      EnableInfer = False,
      GraphConfig = None,
      Config_VectorStoreConfig = None,
      CustomFactExtractionPrompt = [],
      CustomUpdateMemoryPrompt = []\<rparr>"

definition empty_world :: world where
  "empty_world = \<lparr>published = [], inserted = [], mutated = []\<rparr>"

definition example_runtime :: runtime where
  "example_runtime =
     \<lparr>uuid_New = (\<lambda>n. n), time_Now = (\<lambda>n. 1 + int n),
      Time_MarshalJSON = (\<lambda>t. Inr ''2026-01-01T00:00:00Z''),
      Time_Format_RFC3339Nano = (\<lambda>t. ''2026-01-01T00:00:00Z'')\<rparr>"

text \<open>
  The requests the specification calls valid: at least one message, each with a role among
  \<open>user\<close>, \<open>assistant\<close>, \<open>system\<close> and a content that is not empty.
\<close>

definition well_formed :: "Message \<Rightarrow> bool" where
  "well_formed m = (Role m \<in> {''user'', ''assistant'', ''system''} \<and> Content m \<noteq> [])"

definition valid_request :: "AddMemoryRequest \<Rightarrow> bool" where
  "valid_request r = (elems (Messages r) \<noteq> [] \<and> list_all well_formed (elems (Messages r)))"

text \<open>
  A request is \<open>wire_exact\<close> when its JSON text says all of it: its strings are valid
  UTF-8, and its metadata is nil or a non-empty map of normal values (an empty map is left
  out of the text, and read back as nil).
\<close>

definition utf8_message :: "Message \<Rightarrow> bool" where
  "utf8_message m = (valid_utf8 (Role m) \<and> valid_utf8 (Content m) \<and> valid_utf8 (Name m))"

definition wire_exact :: "AddMemoryRequest \<Rightarrow> bool" where
  "wire_exact r =
     (valid_utf8 (UserID (Add_BaseRequestInfo r)) \<and> valid_utf8 (AgentID (Add_BaseRequestInfo r))
      \<and> valid_utf8 (RunID (Add_BaseRequestInfo r)) \<and> valid_utf8 (ActorID (Add_BaseRequestInfo r))
      \<and> Metadata (Add_BaseRequestInfo r) \<noteq> Some [] \<and> normal_map (Metadata (Add_BaseRequestInfo r))
      \<and> list_all utf8_message (elems (Messages r))
      \<and> valid_utf8 (MemoryType r) \<and> valid_utf8 (Prompt r))"

section \<open>Verified properties\<close>

lemmas decode_defs =
  unmarshal_struct_def checkValid_def is_key_def lower_def string_member_def bool_member_def
  raw_bytes_def VSCProvider_member_def QdrantConfig_member_def aux_member_def
  Neo4jConfig_member_def MemgraphConfig_member_def

subsection \<open>Decoding a provider configuration\<close>

text \<open>
  The vector-store decoder refuses a payload that names a provider and has no \<open>config\<close>
  member, with the message that names the provider.
\<close>

lemma VectorStoreConfig_missing_config:
  assumes "unmarshal_struct ''vectorstores.VSCProvider'' VSCProvider_member data
             \<lparr>VSC_Provider = [], VSC_Config = None\<rparr> = (None, temp)"
    and "VSC_Provider temp \<noteq> []" and "VSC_Config temp = None"
  shows "fst (VectorStoreConfig_UnmarshalJSON data vsc)
           = Some (''config field is missing for provider '' @ VSC_Provider temp)"
  using assms by (simp add: VectorStoreConfig_UnmarshalJSON_def)

text \<open>
  Claim C4. A payload with a provider and no \<open>config\<close> member should be refused with
  "config field is missing for provider X" by both decoders. The graph-store decoder has
  no such check: for \<open>{"provider": "neo4j"}\<close> it hands the absent raw member to the JSON
  decoder and returns that decoder's end-of-input error, wrapped.
\<close>

theorem C4_graph_missing_config:
  "fst (GraphStoreConfig_UnmarshalJSON (Doc (JObj [(''provider'', JStr ''neo4j'')]))
          GraphStoreConfig_zero)
     = Some ''failed to unmarshal neo4j config: unexpected end of JSON input''"
  by (simp add: GraphStoreConfig_UnmarshalJSON_def GraphStoreConfig_zero_def decode_defs)

text \<open>
  Claim C5, as stated: an unsupported provider is refused with "unsupported provider: X".
  The vector-store decoder's message for \<open>{"provider": "unknown_provider", "config": {}}\<close>
  is a different one.
\<close>

theorem C5_counterexample:
  "fst (VectorStoreConfig_UnmarshalJSON
          (Doc (JObj [(''provider'', JStr ''unknown_provider''), (''config'', JObj [])]))
          VectorStoreConfig_zero)
     \<noteq> Some ''unsupported provider: unknown_provider''"
  by (simp add: VectorStoreConfig_UnmarshalJSON_def VectorStoreConfig_zero_def decode_defs)

text \<open>
  Claim C5, amended. When the tagged payload decodes and its provider is not supported,
  the vector-store decoder (provider non-empty and not "qdrant", \<open>config\<close> member present)
  fails with "unsupported vector store provider: X", and the graph-store decoder (provider
  neither "neo4j" nor "memgraph", empty included, with or without a \<open>config\<close> member) fails
  with "unknown graph store provider: X".
\<close>

theorem C5_unsupported_provider:
  "(unmarshal_struct ''vectorstores.VSCProvider'' VSCProvider_member data
       \<lparr>VSC_Provider = [], VSC_Config = None\<rparr> = (None, temp)
     \<and> VSC_Config temp \<noteq> None \<and> VSC_Provider temp \<noteq> [] \<and> VSC_Provider temp \<noteq> ''qdrant''
     \<longrightarrow> fst (VectorStoreConfig_UnmarshalJSON data vsc)
           = Some (''unsupported vector store provider: '' @ VSC_Provider temp))
   \<and> (unmarshal_struct aux_type aux_member gdata \<lparr>aux_Config = None, aux_Alias = c\<rparr> = (None, aux)
     \<and> GS_Provider (aux_Alias aux) \<noteq> ''neo4j'' \<and> GS_Provider (aux_Alias aux) \<noteq> ''memgraph''
     \<longrightarrow> fst (GraphStoreConfig_UnmarshalJSON gdata c)
           = Some (''unknown graph store provider: '' @ GS_Provider (aux_Alias aux)))"
  by (auto simp add: VectorStoreConfig_UnmarshalJSON_def GraphStoreConfig_UnmarshalJSON_def Let_def)

theorem C5_unsupported_provider_witness:
  "fst (VectorStoreConfig_UnmarshalJSON
          (Doc (JObj [(''provider'', JStr ''unknown_provider''), (''config'', JObj [])]))
          VectorStoreConfig_zero)
     = Some ''unsupported vector store provider: unknown_provider''
   \<and> fst (GraphStoreConfig_UnmarshalJSON
          (Doc (JObj [(''provider'', JStr ''unsupported_provider''), (''config'', JObj [])]))
          GraphStoreConfig_zero)
     = Some ''unknown graph store provider: unsupported_provider''"
proof -
  let ?d = "Doc (JObj [(''provider'', JStr ''unknown_provider''), (''config'', JObj [])])"
  let ?g = "Doc (JObj [(''provider'', JStr ''unsupported_provider''), (''config'', JObj [])])"
  let ?t = "\<lparr>VSC_Provider = ''unknown_provider'', VSC_Config = Some (JObj [])\<rparr>"
  let ?a = "\<lparr>aux_Config = Some (JObj []),
             aux_Alias = GraphStoreConfig_zero\<lparr>GS_Provider := ''unsupported_provider''\<rparr>\<rparr>"
  have v: "unmarshal_struct ''vectorstores.VSCProvider'' VSCProvider_member ?d
             \<lparr>VSC_Provider = [], VSC_Config = None\<rparr> = (None, ?t)"
    by (simp add: decode_defs)
  have g: "unmarshal_struct aux_type aux_member ?g
             \<lparr>aux_Config = None, aux_Alias = GraphStoreConfig_zero\<rparr> = (None, ?a)"
    by (simp add: decode_defs GraphStoreConfig_zero_def)
  show ?thesis
    using C5_unsupported_provider [of ?d ?t VectorStoreConfig_zero ?g GraphStoreConfig_zero ?a] v g
    by simp
qed

subsection \<open>Validating a provider configuration\<close>

lemma validate_result_None [simp]: "validate_result ve = None \<longleftrightarrow> ve = []"
  by (simp add: validate_result_def)

lemma validate_result_Some_iff [simp]:
  "validate_result ve = Some x \<longleftrightarrow> ve \<noteq> [] \<and> x = ValidationErrors_Error ve"
  by (auto simp add: validate_result_def)

lemma failed_not_Nil [simp]: "failed ns name tag \<noteq> []"
  by (simp add: failed_def)

lemma required_Nil [simp]: "required ns name s = [] \<longleftrightarrow> s \<noteq> []"
  by (simp add: required_def)

lemma QdrantConfig_fields_Nil:
  "QdrantConfig_fields addr_ok ns q = []
     \<longleftrightarrow> Address q \<noteq> [] \<and> addr_ok (Address q) \<and> CollectionName q \<noteq> []"
  by (auto simp add: QdrantConfig_fields_def)

lemma Neo4jConfig_fields_Nil:
  "Neo4jConfig_fields ns n = []
     \<longleftrightarrow> Neo4j_URL n \<noteq> [] \<and> Neo4j_Username n \<noteq> [] \<and> Neo4j_Password n \<noteq> []"
  by (auto simp add: Neo4jConfig_fields_def)

lemma MemgraphConfig_fields_Nil:
  "MemgraphConfig_fields ns m = []
     \<longleftrightarrow> Memgraph_URL m \<noteq> [] \<and> Memgraph_Username m \<noteq> [] \<and> Memgraph_Password m \<noteq> []"
  by (auto simp add: MemgraphConfig_fields_def)

text \<open>A successful decode leaves a config of the concrete type its provider selects.\<close>

lemma Vector_decode_qdrant:
  assumes "VectorStoreConfig_UnmarshalJSON data vsc = (None, vsc')"
    and "VS_Provider vsc' = ''qdrant''"
  shows "\<exists>q. VS_Config vsc' = QdrantPtr q"
  using assms
  by (auto simp add: VectorStoreConfig_UnmarshalJSON_def Let_def
           split: prod.splits option.splits if_splits)

lemma Graph_decode_neo4j:
  assumes "GraphStoreConfig_UnmarshalJSON data c = (None, c')" and "GS_Provider c' = ''neo4j''"
  shows "\<exists>n. GS_Config c' = Neo4jPtr n"
  using assms
  by (auto simp add: GraphStoreConfig_UnmarshalJSON_def Let_def
           split: prod.splits option.splits if_splits)

lemma Vector_Validate_qdrant:
  "VS_Provider vsc = ''qdrant'' \<Longrightarrow> VS_Config vsc = QdrantPtr q \<Longrightarrow>
   VectorStoreConfig_Validate addr_ok vsc = None
     \<longleftrightarrow> Address q \<noteq> [] \<and> addr_ok (Address q) \<and> CollectionName q \<noteq> []"
  by (auto simp add: VectorStoreConfig_Validate_def VectorStoreConfig_fields_def required_oneof_def
        QdrantConfig_Validate_def QdrantConfig_fields_Nil split: option.splits)

lemma Graph_Validate_neo4j:
  "GS_Provider c = ''neo4j'' \<Longrightarrow> GS_Config c = Neo4jPtr n \<Longrightarrow>
   GraphStoreConfig_Validate addr_ok c = None
     \<longleftrightarrow> Neo4j_URL n \<noteq> [] \<and> Neo4j_Username n \<noteq> [] \<and> Neo4j_Password n \<noteq> []"
  by (auto simp add: GraphStoreConfig_Validate_def GraphStoreConfig_fields_def required_oneof_def
        Neo4jConfig_fields_Nil split: option.splits)

text \<open>A config of another type than the provider's never validates.\<close>

lemma Graph_Validate_neo4j_mismatch:
  assumes "GS_Provider c = ''neo4j''" and "\<forall>n. GS_Config c \<noteq> Neo4jPtr n"
  shows "GraphStoreConfig_Validate addr_ok c =
           Some (if config_fields addr_ok ''GraphStoreConfig.Config.'' (GS_Config c) = []
                 then ''config for provider 'neo4j' must be of type *Neo4jConfig, got ''
                        @ type_name (GS_Config c)
                 else ValidationErrors_Error
                        (config_fields addr_ok ''GraphStoreConfig.Config.'' (GS_Config c)))"
  using assms
  by (cases "GS_Config c")
     (auto simp add: GraphStoreConfig_Validate_def GraphStoreConfig_fields_def required_oneof_def
        quote_def validate_result_def)

lemma Graph_Validate_memgraph_mismatch:
  assumes "GS_Provider c = ''memgraph''" and "\<forall>m. GS_Config c \<noteq> MemgraphPtr m"
  shows "GraphStoreConfig_Validate addr_ok c =
           Some (if config_fields addr_ok ''GraphStoreConfig.Config.'' (GS_Config c) = []
                 then ''config for provider 'memgraph' must be of type *MemgraphConfig, got ''
                        @ type_name (GS_Config c)
                 else ValidationErrors_Error
                        (config_fields addr_ok ''GraphStoreConfig.Config.'' (GS_Config c)))"
  using assms
  by (cases "GS_Config c")
     (auto simp add: GraphStoreConfig_Validate_def GraphStoreConfig_fields_def required_oneof_def
        quote_def validate_result_def)

lemma Vector_Validate_qdrant_mismatch:
  assumes "VS_Provider vsc = ''qdrant''" and "\<forall>q. VS_Config vsc \<noteq> QdrantPtr q"
  shows "VectorStoreConfig_Validate addr_ok vsc =
           Some (if VS_Config vsc = NilConfig
                 then ValidationErrors_Error (failed ''VectorStoreConfig.'' ''Config'' ''required'')
                 else if config_fields addr_ok ''VectorStoreConfig.Config.'' (VS_Config vsc) = []
                 then ''config for provider 'qdrant' is of unexpected type ''
                        @ type_name (VS_Config vsc)
                 else ValidationErrors_Error
                        (config_fields addr_ok ''VectorStoreConfig.Config.'' (VS_Config vsc)))"
  using assms
  by (cases "VS_Config vsc")
     (auto simp add: VectorStoreConfig_Validate_def VectorStoreConfig_fields_def required_oneof_def
        quote_def validate_result_def)

text \<open>
  Claim C6, as stated: a config of another provider's type fails validation with a
  type-mismatch error naming the expected and the actual type. For provider "neo4j" holding
  a \<open>*MemgraphConfig\<close> with empty fields, the struct validator has already gone into the
  held struct, and its field errors are returned instead.
\<close>

theorem C6_counterexample:
  "GraphStoreConfig_Validate (\<lambda>a. True)
     \<lparr>GS_Provider = ''neo4j'', GS_Config = MemgraphPtr MemgraphConfig_zero, GS_LLM = GNil,
      GS_CustomPrompt = []\<rparr>
   = Some (ValidationErrors_Error
       [\<lparr>Namespace = ''GraphStoreConfig.Config.URL'', Field = ''URL'', Tag = ''required''\<rparr>,
        \<lparr>Namespace = ''GraphStoreConfig.Config.Username'', Field = ''Username'', Tag = ''required''\<rparr>,
        \<lparr>Namespace = ''GraphStoreConfig.Config.Password'', Field = ''Password'', Tag = ''required''\<rparr>])
   \<and> GraphStoreConfig_Validate (\<lambda>a. True)
     \<lparr>GS_Provider = ''neo4j'', GS_Config = MemgraphPtr MemgraphConfig_zero, GS_LLM = GNil,
      GS_CustomPrompt = []\<rparr>
   \<noteq> Some ''config for provider 'neo4j' must be of type *Neo4jConfig, got *graphs.MemgraphConfig''"
  by (simp add: GraphStoreConfig_Validate_def GraphStoreConfig_fields_def required_oneof_def
        MemgraphConfig_fields_def MemgraphConfig_zero_def required_def failed_def
        validate_result_def ValidationErrors_Error_def FieldError_Error_def quote_def)

text \<open>
  Claim C6, amended. (1, 2) A \<open>VectorStoreConfig\<close> decoded with provider "qdrant", or a
  \<open>GraphStoreConfig\<close> decoded with provider "neo4j", holds a config of the matching concrete
  type, and \<open>Validate\<close> then succeeds exactly when that config's own fields pass validation.
  (3, 4) A \<open>GraphStoreConfig\<close>, however it was built, whose provider is "neo4j" ("memgraph")
  and whose config is not a \<open>*Neo4jConfig\<close> (\<open>*MemgraphConfig\<close>) never validates: the error is
  the struct validator's when the held config's own fields fail validation, and otherwise the
  type mismatch naming the expected and the actual type. (5) A \<open>VectorStoreConfig\<close> whose
  provider is "qdrant" and whose config is not a \<open>*QdrantConfig\<close> never validates either: the
  error is the validator's for a nil config or failing fields, and otherwise names the provider
  and the actual type only.
\<close>

theorem C6_validate_type_agreement:
  "(VectorStoreConfig_UnmarshalJSON data vsc = (None, vsc') \<and> VS_Provider vsc' = ''qdrant''
      \<longrightarrow> (\<exists>q. VS_Config vsc' = QdrantPtr q
             \<and> (VectorStoreConfig_Validate addr_ok vsc' = None
                  \<longleftrightarrow> Address q \<noteq> [] \<and> addr_ok (Address q) \<and> CollectionName q \<noteq> [])))
   \<and> (GraphStoreConfig_UnmarshalJSON gdata c = (None, c') \<and> GS_Provider c' = ''neo4j''
      \<longrightarrow> (\<exists>n. GS_Config c' = Neo4jPtr n
             \<and> (GraphStoreConfig_Validate addr_ok c' = None
                  \<longleftrightarrow> Neo4j_URL n \<noteq> [] \<and> Neo4j_Username n \<noteq> [] \<and> Neo4j_Password n \<noteq> [])))
   \<and> (GS_Provider g = ''neo4j'' \<and> (\<forall>n. GS_Config g \<noteq> Neo4jPtr n)
      \<longrightarrow> GraphStoreConfig_Validate addr_ok g =
            Some (if config_fields addr_ok ''GraphStoreConfig.Config.'' (GS_Config g) = []
                  then ''config for provider 'neo4j' must be of type *Neo4jConfig, got ''
                         @ type_name (GS_Config g)
                  else ValidationErrors_Error
                         (config_fields addr_ok ''GraphStoreConfig.Config.'' (GS_Config g))))
   \<and> (GS_Provider h = ''memgraph'' \<and> (\<forall>m. GS_Config h \<noteq> MemgraphPtr m)
      \<longrightarrow> GraphStoreConfig_Validate addr_ok h =
            Some (if config_fields addr_ok ''GraphStoreConfig.Config.'' (GS_Config h) = []
                  then ''config for provider 'memgraph' must be of type *MemgraphConfig, got ''
                         @ type_name (GS_Config h)
                  else ValidationErrors_Error
                         (config_fields addr_ok ''GraphStoreConfig.Config.'' (GS_Config h))))
   \<and> (VS_Provider v = ''qdrant'' \<and> (\<forall>q. VS_Config v \<noteq> QdrantPtr q)
      \<longrightarrow> VectorStoreConfig_Validate addr_ok v =
            Some (if VS_Config v = NilConfig
                  then ValidationErrors_Error (failed ''VectorStoreConfig.'' ''Config'' ''required'')
                  else if config_fields addr_ok ''VectorStoreConfig.Config.'' (VS_Config v) = []
                  then ''config for provider 'qdrant' is of unexpected type '' @ type_name (VS_Config v)
                  else ValidationErrors_Error
                         (config_fields addr_ok ''VectorStoreConfig.Config.'' (VS_Config v))))"
proof (intro conjI impI)
  assume a: "VectorStoreConfig_UnmarshalJSON data vsc = (None, vsc') \<and> VS_Provider vsc' = ''qdrant''"
  then obtain q where q: "VS_Config vsc' = QdrantPtr q"
    using Vector_decode_qdrant by blast
  with a Vector_Validate_qdrant [of vsc' q addr_ok]
  show "\<exists>q. VS_Config vsc' = QdrantPtr q
          \<and> (VectorStoreConfig_Validate addr_ok vsc' = None
               \<longleftrightarrow> Address q \<noteq> [] \<and> addr_ok (Address q) \<and> CollectionName q \<noteq> [])"
    by (intro exI [of _ q]) simp
next
  assume a: "GraphStoreConfig_UnmarshalJSON gdata c = (None, c') \<and> GS_Provider c' = ''neo4j''"
  then obtain n where n: "GS_Config c' = Neo4jPtr n"
    using Graph_decode_neo4j by blast
  with a Graph_Validate_neo4j [of c' n addr_ok]
  show "\<exists>n. GS_Config c' = Neo4jPtr n
          \<and> (GraphStoreConfig_Validate addr_ok c' = None
               \<longleftrightarrow> Neo4j_URL n \<noteq> [] \<and> Neo4j_Username n \<noteq> [] \<and> Neo4j_Password n \<noteq> [])"
    by (intro exI [of _ n]) simp
qed (simp_all add: Graph_Validate_neo4j_mismatch Graph_Validate_memgraph_mismatch
       Vector_Validate_qdrant_mismatch)

theorem C6_validate_type_agreement_witness:
  "VectorStoreConfig_Validate (\<lambda>a. a = ''http://localhost:6333'')
     (snd (VectorStoreConfig_UnmarshalJSON
        (Doc (JObj [(''provider'', JStr ''qdrant''),
                    (''config'', JObj [(''address'', JStr ''http://localhost:6333''),
                                       (''collection_name'', JStr ''test_collection'')])]))
        VectorStoreConfig_zero)) = None
   \<and> GraphStoreConfig_Validate (\<lambda>a. a = ''http://localhost:6333'')
     (snd (GraphStoreConfig_UnmarshalJSON
        (Doc (JObj [(''provider'', JStr ''neo4j''),
                    (''config'', JObj [(''url'', JStr ''bolt://localhost:7687''),
                                       (''username'', JStr ''neo4j_user''),
                                       (''password'', JStr ''neo4j_password'')])]))
        GraphStoreConfig_zero)) = None
   \<and> GraphStoreConfig_Validate (\<lambda>a. a = ''http://localhost:6333'')
       (GraphStoreConfig_zero\<lparr>GS_Provider := ''neo4j'',
          GS_Config := MemgraphPtr \<lparr>Memgraph_URL = ''url'', Memgraph_Username = ''user'',
                                    Memgraph_Password = ''password''\<rparr>\<rparr>)
     = Some ''config for provider 'neo4j' must be of type *Neo4jConfig, got *graphs.MemgraphConfig''
   \<and> GraphStoreConfig_Validate (\<lambda>a. a = ''http://localhost:6333'')
       (GraphStoreConfig_zero\<lparr>GS_Provider := ''memgraph'',
          GS_Config := Neo4jPtr \<lparr>Neo4j_URL = ''url'', Neo4j_Username = ''user'',
                                 Neo4j_Password = ''password'', Neo4j_Database = [],
                                 Neo4j_BaseLabel = False\<rparr>\<rparr>)
     = Some ''config for provider 'memgraph' must be of type *MemgraphConfig, got *graphs.Neo4jConfig''
   \<and> VectorStoreConfig_Validate (\<lambda>a. a = ''http://localhost:6333'')
       \<lparr>VS_Provider = ''qdrant'', VS_Config = OtherConfig ''string''\<rparr>
     = Some ''config for provider 'qdrant' is of unexpected type string''"
proof -
  let ?ok = "\<lambda>a. a = ''http://localhost:6333''"
  let ?d = "Doc (JObj [(''provider'', JStr ''qdrant''),
                    (''config'', JObj [(''address'', JStr ''http://localhost:6333''),
                                       (''collection_name'', JStr ''test_collection'')])])"
  let ?v' = "\<lparr>VS_Provider = ''qdrant'',
              VS_Config = QdrantPtr \<lparr>Address = ''http://localhost:6333'', APIKey = [],
                                     CollectionName = ''test_collection''\<rparr>\<rparr>"
  let ?gd = "Doc (JObj [(''provider'', JStr ''neo4j''),
                    (''config'', JObj [(''url'', JStr ''bolt://localhost:7687''),
                                       (''username'', JStr ''neo4j_user''),
                                       (''password'', JStr ''neo4j_password'')])])"
  let ?c' = "\<lparr>GS_Provider = ''neo4j'',
              GS_Config = Neo4jPtr \<lparr>Neo4j_URL = ''bolt://localhost:7687'',
                Neo4j_Username = ''neo4j_user'', Neo4j_Password = ''neo4j_password'',
                Neo4j_Database = [], Neo4j_BaseLabel = False\<rparr>,
              GS_LLM = GNil, GS_CustomPrompt = []\<rparr>"
  let ?g = "GraphStoreConfig_zero\<lparr>GS_Provider := ''neo4j'',
          GS_Config := MemgraphPtr \<lparr>Memgraph_URL = ''url'', Memgraph_Username = ''user'',
                                    Memgraph_Password = ''password''\<rparr>\<rparr>"
  let ?h = "GraphStoreConfig_zero\<lparr>GS_Provider := ''memgraph'',
          GS_Config := Neo4jPtr \<lparr>Neo4j_URL = ''url'', Neo4j_Username = ''user'',
                                 Neo4j_Password = ''password'', Neo4j_Database = [],
                                 Neo4j_BaseLabel = False\<rparr>\<rparr>"
  let ?v = "\<lparr>VS_Provider = ''qdrant'', VS_Config = OtherConfig ''string''\<rparr>"
  have d: "VectorStoreConfig_UnmarshalJSON ?d VectorStoreConfig_zero = (None, ?v')"
    by (simp add: VectorStoreConfig_UnmarshalJSON_def VectorStoreConfig_zero_def decode_defs
          QdrantConfig_zero_def)
  have gd: "GraphStoreConfig_UnmarshalJSON ?gd GraphStoreConfig_zero = (None, ?c')"
    by (simp add: GraphStoreConfig_UnmarshalJSON_def GraphStoreConfig_zero_def decode_defs
          Neo4jConfig_zero_def)
  note inst = C6_validate_type_agreement
    [of ?d VectorStoreConfig_zero ?v' ?ok ?gd GraphStoreConfig_zero ?c' ?g ?h ?v]
  show ?thesis
    using inst d gd
    by (simp add: GraphStoreConfig_zero_def Neo4jConfig_fields_def MemgraphConfig_fields_def)
qed

subsection \<open>The history store\<close>

lemmas store_defs =
  Lock_def Unlock_def RLock_def RUnlock_def createHistoryTable_def exec_create_table_def
  exec_create_index_def exec_drop_table_def prepare_insert_def exec_insert_def query_history_def

text \<open>ASCII text is valid UTF-8.\<close>

lemma coerce_utf8_ascii: "list_all (\<lambda>c. byte c < 0x80) s \<Longrightarrow> coerce_utf8 s = s"
  by (induction s) (simp_all add: Let_def)

lemma valid_utf8_ascii: "list_all (\<lambda>c. byte c < 0x80) s \<Longrightarrow> valid_utf8 s"
  by (simp add: valid_utf8_def coerce_utf8_ascii)

lemma to_json_roundtrip:
  "normal v \<Longrightarrow> \<exists>j. to_json v = Inr j \<and> of_json j = v"
  "normal_list vs \<Longrightarrow> \<exists>js. to_json_list vs = Inr js \<and> map of_json js = vs"
  "normal_members kvs \<Longrightarrow>
     \<exists>ms. to_json_members kvs = Inr ms \<and> map (\<lambda>(k, x). (k, of_json x)) ms = kvs"
  by (induction v and vs and kvs rule: to_json_to_json_list_to_json_members.induct)
     (auto simp add: JString_def valid_utf8_def)


lemma String_NullString [simp]: "String (NullString s) = s"
  by (simp add: String_def NullString_def)








lemma timestamp_stored_row [simp]: "timestamp (stored_row e) = Timestamp e"
  by (simp add: stored_row_def insert_args_def)




text \<open>\<open>Reset\<close> on an open store nobody else holds: the table is dropped, and the call
  waits for the lock it holds itself.\<close>

lemma Reset_blocks:
  "db s = Some d \<Longrightarrow> mu s = Free \<Longrightarrow> Reset s = (Blocks, s\<lparr>db := Some None, mu := Writer\<rparr>)"
  by (simp add: Reset_def store_defs)

text \<open>
  Claim C3. \<open>Reset\<close> should drop the history, recreate the empty table and leave the store
  usable. On the store \<open>NewSQLiteHistoryStore(":memory:")\<close> returns, \<open>Reset\<close> takes the
  write lock, drops the table and calls \<open>_createHistoryTable\<close>, which takes the same,
  non-reentrant lock: the call never returns, the table is not recreated, and every later
  \<open>GetHistory\<close> or \<open>LogEvent\<close> waits for the lock as well.
\<close>

theorem C3_Reset_never_returns:
  "NewSQLiteHistoryStore '':memory:'' None
     = Returns (Inr \<lparr>db = Some (Some []), dbPath = '':memory:'', mu = Free\<rparr>)
   \<and> Reset \<lparr>db = Some (Some []), dbPath = '':memory:'', mu = Free\<rparr>
     = (Blocks, \<lparr>db = Some None, dbPath = '':memory:'', mu = Writer\<rparr>)
   \<and> fst (GetHistory \<lparr>db = Some None, dbPath = '':memory:'', mu = Writer\<rparr> ''reset-test'') = Blocks
   \<and> fst (LogEvent u now \<lparr>db = Some None, dbPath = '':memory:'', mu = Writer\<rparr> event) = Blocks"
  by (simp add: NewSQLiteHistoryStore_def Reset_def GetHistory_def LogEvent_def store_defs)

text \<open>
  What \<open>GetHistory\<close> makes of the \<open>details\<close> column: an empty map for \<open>NULL\<close> or the
  empty text, a map with an "error" entry for text that does not decode.
\<close>

lemma scan_event_no_details:
  "details r = None \<or> details r = Some Empty \<Longrightarrow> Details (scan_event r) = Some []"
  by (auto simp add: scan_event_def Let_def)

lemma scan_event_corrupt_details:
  "details r = Some (Garbage msg) \<Longrightarrow>
   Details (scan_event r) = Some [(''error'', GString (''failed to unmarshal details: '' @ msg))]"
  by (auto simp add: scan_event_def Let_def unmarshal_map_def checkValid_def)

lemma scan_event_mistyped_details:
  "details r = Some (Doc v) \<Longrightarrow> v \<noteq> JNull \<Longrightarrow> \<forall>kvs. v \<noteq> JObj kvs \<Longrightarrow>
   Details (scan_event r)
     = Some [(''error'', GString (''failed to unmarshal details: ''
                @ type_error_value v ''map[string]interface {}''))]"
  by (cases v) (auto simp add: scan_event_def Let_def unmarshal_map_def checkValid_def map_value_def)

lemma scan_event_null_details:
  "details r = Some (Doc JNull) \<Longrightarrow> Details (scan_event r) = None"
  by (auto simp add: scan_event_def Let_def unmarshal_map_def checkValid_def map_value_def
        MemoryEvent_zero_def)

text \<open>
  Claim C10. Every event \<open>GetHistory\<close> returns should have a non-nil details map. An
  event logged with nil details is stored with the text \<open>null\<close>, which is neither \<open>NULL\<close>
  nor empty and decodes without error to the nil map: the event comes back with nil details.
\<close>

theorem C10_nil_details:
  "(case LogEvent u now \<lparr>db = Some (Some []), dbPath = '':memory:'', mu = Free\<rparr>
           (MemoryEvent_zero\<lparr>EventID := ''e4'', Event_MemoryID := ''memory-2'',
              EventType := ''DELETE'', Timestamp := 4, Details := None\<rparr>) of
      (r, s, e) \<Rightarrow>
        (r, map Details (case fst (GetHistory s ''memory-2'') of Returns (Inr es) \<Rightarrow> es | _ \<Rightarrow> [])))
   = (Returns None, [None])"
  by (simp add: LogEvent_def GetHistory_def store_defs marshal_map_def insert_args_def
        NullString_def MemoryEvent_zero_def IsZero_def scan_event_def unmarshal_map_def
        checkValid_def map_value_def String_def)

subsection \<open>The stage workers\<close>

lemmas wire_defs =
  unmarshal_struct_def checkValid_def is_key_def lower_def string_member_def bool_member_def
  BaseRequestInfo_member_def map_value_def slice_member_def float32_member_def
  Message_member_def Message_elem_def Messages_member_def
  Entity_member_def Entity_elem_def Relation_member_def Relation_elem_def
  BaseRequestInfo_members_def omitempty_def omitempty_map_def omitempty_slice_def slice_json_def
  elems_def Message_json_def Entity_json_def Relation_json_def
  BaseRequestInfo_zero_def Message_zero_def Entity_zero_def Relation_zero_def

lemma decode_members_invariant:
  assumes "\<And>k v s e s'. P s \<Longrightarrow> step k v s = (e, s') \<Longrightarrow> P s'"
    and "P s" and "decode_members step kvs s = (e, s')"
  shows "P s'"
  using assms(2,3)
proof (induction kvs arbitrary: s e s')
  case Nil
  then show ?case by simp
next
  case (Cons kv kvs)
  obtain k v where kv: "kv = (k, v)" by (cases kv) auto
  obtain e1 s1 where s1: "step k v s = (e1, s1)" by (cases "step k v s") auto
  obtain e2 s2 where s2: "decode_members step kvs s1 = (e2, s2)"
    by (cases "decode_members step kvs s1") auto
  from Cons.prems(2) kv s1 s2 have "s' = s2" by simp
  moreover have "P s1" using Cons.prems(1) s1 by (rule assms(1))
  ultimately show ?case using Cons.IH [OF \<open>P s1\<close> s2] by simp
qed

lemma unmarshal_struct_invariant:
  assumes "\<And>k v s e s'. P s \<Longrightarrow> step k v s = (e, s') \<Longrightarrow> P s'"
    and "P s" and "unmarshal_struct gotype step data s = (e, s')"
  shows "P s'"
proof (cases "checkValid data")
  case (Inl err)
  with assms(2,3) show ?thesis by (simp add: unmarshal_struct_def)
next
  case (Inr j)
  show ?thesis
  proof (cases j)
    case (JObj kvs)
    with Inr assms(3) have "decode_members step kvs s = (e, s')"
      by (simp add: unmarshal_struct_def)
    from decode_members_invariant [where P = P, OF assms(1) assms(2) this]
    show ?thesis .
  qed (use Inr assms(2,3) in \<open>simp_all add: unmarshal_struct_def\<close>)
qed

lemma not_isl_iff: "\<not> isl x \<longleftrightarrow> (\<exists>y. x = Inr y)"
  by (cases x) auto

lemma to_json_list_ok:
  "(\<And>x. x \<in> set xs \<Longrightarrow> \<not> isl (to_json x)) \<Longrightarrow> \<not> isl (to_json_list xs)"
proof (induction xs)
  case Nil
  then show ?case by simp
next
  case (Cons x xs)
  have "\<not> isl (to_json x)"
    using Cons.prems by simp
  then obtain j where j: "to_json x = Inr j"
    by (auto simp add: not_isl_iff)
  have "\<not> isl (to_json_list xs)"
    by (rule Cons.IH) (use Cons.prems in auto)
  then obtain js where "to_json_list xs = Inr js"
    by (auto simp add: not_isl_iff)
  with j show ?case by simp
qed

lemma to_json_members_ok:
  "(\<And>k x. (k, x) \<in> set kvs \<Longrightarrow> \<not> isl (to_json x)) \<Longrightarrow> \<not> isl (to_json_members kvs)"
proof (induction kvs)
  case Nil
  then show ?case by simp
next
  case (Cons kv kvs)
  obtain k x where kv: "kv = (k, x)" by (cases kv) auto
  have "\<not> isl (to_json x)"
    using Cons.prems [of k x] kv by simp
  then obtain j where j: "to_json x = Inr j"
    by (auto simp add: not_isl_iff)
  have "\<not> isl (to_json_members kvs)"
    by (rule Cons.IH) (use Cons.prems in auto)
  then obtain ms where "to_json_members kvs = Inr ms"
    by (auto simp add: not_isl_iff)
  with kv j show ?case by simp
qed

lemma of_json_encodes: "\<not> isl (to_json (of_json j))"
proof (induction j)
  case (JArr xs)
  then have "\<not> isl (to_json_list (map of_json xs))"
    by (intro to_json_list_ok) auto
  then show ?case by (auto simp add: not_isl_iff)
next
  case (JObj kvs)
  have "\<not> isl (to_json_members (map (\<lambda>(k, x). (k, of_json x)) kvs))"
  proof (rule to_json_members_ok)
    fix k x
    assume "(k, x) \<in> set (map (\<lambda>(k, x). (k, of_json x)) kvs)"
    then obtain v where v: "(k, v) \<in> set kvs" and x: "x = of_json v"
      by auto
    have "\<not> isl (to_json (of_json v))"
      by (rule JObj [OF v]) (simp add: snds.simps)
    with x show "\<not> isl (to_json x)"
      by simp
  qed
  then show ?case by (auto simp add: not_isl_iff)
qed (simp_all add: JString_def)

lemma of_json_members_encode:
  "\<not> isl (to_json_members (map (\<lambda>(k, x). (k, of_json x)) kvs))"
  by (rule to_json_members_ok) (auto simp add: of_json_encodes)

lemma to_json_members_append:
  "\<not> isl (to_json_members xs) \<Longrightarrow> \<not> isl (to_json_members ys) \<Longrightarrow> \<not> isl (to_json_members (xs @ ys))"
proof (induction xs)
  case Nil
  then show ?case by simp
next
  case (Cons kv xs)
  obtain k x where kv: "kv = (k, x)" by (cases kv) auto
  from Cons.prems(1) kv have j: "\<not> isl (to_json x)" and ms: "\<not> isl (to_json_members xs)"
    by (auto split: sum.splits)
  from j obtain j' where j': "to_json x = Inr j'"
    by (auto simp add: not_isl_iff)
  from Cons.IH [OF ms Cons.prems(2)] obtain ms' where "to_json_members (xs @ ys) = Inr ms'"
    by (auto simp add: not_isl_iff)
  with kv j' show ?case by simp
qed

lemma map_value_encodable:
  "encodable m \<Longrightarrow> map_value v m mismatch = (e, m') \<Longrightarrow> encodable m'"
  by (cases v)
     (auto simp add: map_value_def encodable_def elems_def to_json_members_append
        of_json_members_encode split: option.splits)

lemma BaseRequestInfo_member_encodable:
  "encodable (Metadata b) \<Longrightarrow> BaseRequestInfo_member struct k v b = Some (e, b')
     \<Longrightarrow> encodable (Metadata b')"
  by (auto simp add: BaseRequestInfo_member_def split: if_splits prod.splits
        dest: map_value_encodable)

lemma BaseRequestInfo_members_encodable:
  "encodable (Metadata b) \<Longrightarrow> \<not> isl (BaseRequestInfo_members b)"
  by (auto simp add: BaseRequestInfo_members_def omitempty_map_def encodable_def split: sum.splits)

lemma ProcessedMemoryData_member_base:
  assumes "ProcessedMemoryData_member k v s = (e, s')"
  shows "Processed_BaseRequestInfo s' = Processed_BaseRequestInfo s
         \<or> (\<exists>e'. BaseRequestInfo_member ''ProcessedMemoryData'' k v (Processed_BaseRequestInfo s)
                    = Some (e', Processed_BaseRequestInfo s'))"
proof (cases "BaseRequestInfo_member ''ProcessedMemoryData'' k v (Processed_BaseRequestInfo s)")
  case None
  with assms have "Processed_BaseRequestInfo s' = Processed_BaseRequestInfo s"
    by (auto simp add: ProcessedMemoryData_member_def split: if_splits prod.splits)
  then show ?thesis ..
next
  case (Some r)
  with assms show ?thesis
    by (cases r) (auto simp add: ProcessedMemoryData_member_def)
qed

lemma unmarshal_ProcessedMemoryData_encodable:
  assumes "unmarshal_ProcessedMemoryData data = (e, d)"
  shows "encodable (Metadata (Processed_BaseRequestInfo d))"
proof (rule unmarshal_struct_invariant
         [where P = "\<lambda>d. encodable (Metadata (Processed_BaseRequestInfo d))",
          OF _ _ assms [unfolded unmarshal_ProcessedMemoryData_def]])
  show "encodable (Metadata (Processed_BaseRequestInfo ProcessedMemoryData_zero))"
    by (simp add: ProcessedMemoryData_zero_def BaseRequestInfo_zero_def encodable_def elems_def)
next
  fix k v s e s'
  assume "encodable (Metadata (Processed_BaseRequestInfo s))"
    and "ProcessedMemoryData_member k v s = (e, s')"
  then show "encodable (Metadata (Processed_BaseRequestInfo s'))"
    using ProcessedMemoryData_member_base [of k v s e s']
      BaseRequestInfo_member_encodable [of "Processed_BaseRequestInfo s"]
    by auto
qed


lemma history_publish_effects [simp]:
  "inserted (history_publish rt nc cfg ev w) = inserted w"
  "mutated (history_publish rt nc cfg ev w) = mutated w"
  by (auto simp add: history_publish_def Publish_def Let_def split: sum.splits option.splits)

lemma history_publish_published:
  "take (length (published w)) (published (history_publish rt nc cfg ev w)) = published w"
  by (auto simp add: history_publish_def Publish_def Let_def split: sum.splits option.splits)


lemma marshal_graph_store_data:
  assumes "BaseRequestInfo_members (Processed_BaseRequestInfo d) = Inr base"
  shows "marshal_GraphStoreStorageData (graph_store_data d)
           = Inr (JObj (base
                   @ [(''memory_id'', JString (Processed_MemoryID d)),
                      (''text_for_graph'', JString (ProcessedText d))]))"
  using assms
  by (simp add: marshal_GraphStoreStorageData_def graph_store_data_def omitempty_slice_def elems_def)

lemma decoded_base_encodes:
  assumes "unmarshal_ProcessedMemoryData data = (e, d)"
  obtains base where "BaseRequestInfo_members (Processed_BaseRequestInfo d) = Inr base"
  using unmarshal_ProcessedMemoryData_encodable [OF assms] BaseRequestInfo_members_encodable
  by (auto simp add: not_isl_iff)



text \<open>
  Claim C8, as stated: for every \<open>ProcessedMemoryData\<close> the embedding stage handles, a
  graph-store message is published exactly when \<open>EnableGraphStore\<close> is set. With the flag
  set and an embedding client whose \<open>GetEmbedding\<close> fails, the handler returns the error
  and publishes nothing, neither on the graph-store topic nor on the vector-store topic.
\<close>

theorem C8_counterexample:
  "handleEmbedMessage (Some \<lparr>Publish_result = (\<lambda>topic data. None)\<rparr>) example_Config
     (Some \<lparr>ExtractFacts = (\<lambda>text prompt. Inr []),
            GetEmbedding = (\<lambda>text. Inl ''embedding backend unavailable''),
            ExtractGraphData = (\<lambda>text prompt. Inr (None, None))\<rparr>)
     (Doc (JObj [(''memory_id'', JStr ''m1''), (''processed_text'', JStr ''hello'')]))
     empty_world
   = (Some ''error getting embedding: embedding backend unavailable'', empty_world)
   \<and> EnableGraphStore example_Config \<and> published empty_world = []"
  by (simp add: handleEmbedMessage_def get_embedding_def unmarshal_ProcessedMemoryData_def
        ProcessedMemoryData_member_def ProcessedMemoryData_zero_def wire_defs example_Config_def
        empty_world_def)

text \<open>
  Claim C8. The embedding worker is handed a payload that decodes as \<open>ProcessedMemoryData\<close>.
  If the worker listens (it has its NATS client), the embedding was obtained and the
  \<open>EmbeddingData\<close> encodes, then the handler returns no error and its publish calls are
  exactly: the \<open>EmbeddingData\<close> on the vector-store topic, followed by the
  \<open>GraphStoreStorageData\<close> on the graph-store topic when \<open>EnableGraphStore\<close> is set, and
  by nothing when it is not. If the embedding cannot be obtained, or the \<open>EmbeddingData\<close>
  does not encode, the handler returns that error and publishes nothing. The graph worker
  itself listens only when \<open>EnableGraphStore\<close> is set.
\<close>

theorem C8_graph_message_when_enabled:
  assumes "unmarshal_ProcessedMemoryData data = (None, processedData)"
  shows "(Worker_listens nc
            \<and> get_embedding openai processedData = Inr embedding
            \<and> marshal_EmbeddingData (embedding_data processedData embedding) = Inr jsonData
          \<longrightarrow> (\<exists>c graphJsonData.
                 nc = Some c
                 \<and> marshal_GraphStoreStorageData (graph_store_data processedData) = Inr graphJsonData
                 \<and> handleEmbedMessage nc cfg openai data w
                     = (None,
                        w\<lparr>published := published w
                             @ [(TopicMemoryVectorStoreAdd cfg, Doc jsonData,
                                 Publish_result c (TopicMemoryVectorStoreAdd cfg) (Doc jsonData))]
                             @ (if EnableGraphStore cfg
                                then [(TopicMemoryGraphStoreAdd cfg, Doc graphJsonData,
                                       Publish_result c (TopicMemoryGraphStoreAdd cfg)
                                         (Doc graphJsonData))]
                                else [])\<rparr>)))
         \<and> (get_embedding openai processedData = Inl err
          \<longrightarrow> handleEmbedMessage nc cfg openai data w = (Some (''error getting embedding: '' @ err), w))
         \<and> (get_embedding openai processedData = Inr embedding
            \<and> marshal_EmbeddingData (embedding_data processedData embedding) = Inl err
          \<longrightarrow> handleEmbedMessage nc cfg openai data w
                = (Some (''error marshalling EmbeddingData: '' @ err), w))
         \<and> (DgraphWorker_listens nc cfg \<longrightarrow> EnableGraphStore cfg)"
proof -
  from decoded_base_encodes [OF assms] obtain base where
    base: "BaseRequestInfo_members (Processed_BaseRequestInfo processedData) = Inr base" .
  show ?thesis
    using assms marshal_graph_store_data [OF base]
    by (cases w)
       (auto simp add: handleEmbedMessage_def Publish_def Let_def Worker_listens_def
          DgraphWorker_listens_def split: if_splits)
qed

theorem C8_graph_message_when_enabled_witness:
  "map (\<lambda>(topic, data, err). topic)
     (published (snd (handleEmbedMessage (Some \<lparr>Publish_result = (\<lambda>topic data. None)\<rparr>)
        example_Config
        (Some \<lparr>ExtractFacts = (\<lambda>text prompt. Inr []),
               GetEmbedding = (\<lambda>text. Inr (Some [Float32 0.5, Float32 0.25])),
               ExtractGraphData = (\<lambda>text prompt. Inr (None, None))\<rparr>)
        (Doc (JObj [(''memory_id'', JStr ''m1''), (''processed_text'', JStr ''hello'')]))
        empty_world)))
   = [''memory.vectorstore.add'', ''memory.graphstore.add'']
   \<and> handleEmbedMessage (Some \<lparr>Publish_result = (\<lambda>topic data. None)\<rparr>)
        (example_Config\<lparr>EnableGraphStore := False\<rparr>)
        (Some \<lparr>ExtractFacts = (\<lambda>text prompt. Inr []),
               GetEmbedding = (\<lambda>text. Inr (Some [Float32 0.5, Float32 0.25])),
               ExtractGraphData = (\<lambda>text prompt. Inr (None, None))\<rparr>)
        (Doc (JObj [(''memory_id'', JStr ''m1''), (''processed_text'', JStr ''hello'')]))
        empty_world
     = (None,
        empty_world\<lparr>published :=
          [(''memory.vectorstore.add'',
            Doc (JObj [(''memory_id'', JStr ''m1''), (''text_to_embed'', JStr ''hello''),
                       (''embedding'', JArr [JNum 0.5, JNum 0.25]),
                       (''processed_text'', JStr ''hello'')]),
            None)]\<rparr>)"
proof -
  let ?data = "Doc (JObj [(''memory_id'', JStr ''m1''), (''processed_text'', JStr ''hello'')])"
  let ?nc = "Some \<lparr>Publish_result = (\<lambda>topic data. None)\<rparr>"
  let ?ai = "Some \<lparr>ExtractFacts = (\<lambda>text prompt. Inr []),
               GetEmbedding = (\<lambda>text. Inr (Some [Float32 0.5, Float32 0.25])),
               ExtractGraphData = (\<lambda>text prompt. Inr (None, None))\<rparr>"
  let ?d = "ProcessedMemoryData_zero\<lparr>Processed_MemoryID := ''m1'', ProcessedText := ''hello''\<rparr>"
  let ?j = "JObj [(''memory_id'', JStr ''m1''), (''text_to_embed'', JStr ''hello''),
                  (''embedding'', JArr [JNum 0.5, JNum 0.25]), (''processed_text'', JStr ''hello'')]"
  have decoded: "unmarshal_ProcessedMemoryData ?data = (None, ?d)"
    by (simp add: unmarshal_ProcessedMemoryData_def ProcessedMemoryData_member_def
          ProcessedMemoryData_zero_def wire_defs)
  have h: "Worker_listens ?nc
           \<and> get_embedding ?ai ?d = Inr (Some [Float32 0.5, Float32 0.25])
           \<and> marshal_EmbeddingData (embedding_data ?d (Some [Float32 0.5, Float32 0.25])) = Inr ?j"
    by (simp add: Worker_listens_def get_embedding_def marshal_EmbeddingData_def embedding_data_def
          ProcessedMemoryData_zero_def wire_defs JString_def coerce_utf8_ascii byte_def)
  show ?thesis
    using C8_graph_message_when_enabled [OF decoded, of ?nc ?ai "Some [Float32 0.5, Float32 0.25]" ?j
            example_Config empty_world]
      C8_graph_message_when_enabled [OF decoded, of ?nc ?ai "Some [Float32 0.5, Float32 0.25]" ?j
            "example_Config\<lparr>EnableGraphStore := False\<rparr>" empty_world]
      h
    by (auto simp add: example_Config_def empty_world_def)
qed

text \<open>
  Claim C7. In each of the three stage handlers the history event is published after the
  stage's primary side effect, and the result of that publish is not part of the handler's
  result. Processing: once the \<open>ProcessedMemoryData\<close> has been published on the embed topic
  without error, the handler returns no error and that publish stays in the trace. Vector
  store: once \<open>InsertVectors\<close> has returned no error, the handler returns no error and the
  insertion stays recorded. Graph store: once \<open>Mutate\<close> has returned no error, the handler
  returns no error and the mutation stays recorded. Nothing is assumed about the NATS
  client's answer on the history topic, so this holds when that publish fails.
\<close>

theorem C7_history_failure_does_not_fail_stage:
  "(unmarshal_AddMemoryRequest data = (None, addReq)
      \<and> marshal_ProcessedMemoryData (processed_data rt cfg openai addReq) = Inr jsonData
      \<and> nc = Some c \<and> Publish_result c (TopicMemoryEmbed cfg) (Doc jsonData) = None
    \<longrightarrow> fst (handleProcessMessage rt nc cfg openai data w) = None
        \<and> take (Suc (length (published w)))
              (published (snd (handleProcessMessage rt nc cfg openai data w)))
            = published w @ [(TopicMemoryEmbed cfg, Doc jsonData, None)])
   \<and> (unmarshal_EmbeddingData vdata = (None, embeddingData)
      \<and> vs = Some store
      \<and> InsertVectors_result store (collection_name cfg) [vector_input rt embeddingData] = None
    \<longrightarrow> fst (handleVectorStoreAddMessage rt nc cfg vs vdata w) = None
        \<and> inserted (snd (handleVectorStoreAddMessage rt nc cfg vs vdata w))
            = inserted w @ [(collection_name cfg, [vector_input rt embeddingData], None)])
   \<and> (unmarshal_GraphStoreStorageData gdata = (None, decoded)
      \<and> dg = Some client
      \<and> graphData = extracted_graph_data cfg openai graphCfg decoded
      \<and> (elems (Entities graphData) \<noteq> [] \<or> elems (Relationships graphData) \<noteq> [])
      \<and> Mutate_result client (mutation graphData) = None
    \<longrightarrow> fst (handleGraphStoreAddMessage rt nc cfg openai dg graphCfg gdata w) = None
        \<and> mutated (snd (handleGraphStoreAddMessage rt nc cfg openai dg graphCfg gdata w))
            = mutated w @ [(mutation graphData, None)])"
proof (intro conjI impI)
  assume a: "unmarshal_AddMemoryRequest data = (None, addReq)
      \<and> marshal_ProcessedMemoryData (processed_data rt cfg openai addReq) = Inr jsonData
      \<and> nc = Some c \<and> Publish_result c (TopicMemoryEmbed cfg) (Doc jsonData) = None"
  then show "fst (handleProcessMessage rt nc cfg openai data w) = None"
    by (simp add: handleProcessMessage_def Let_def)
  let ?w1 = "w\<lparr>published := published w @ [(TopicMemoryEmbed cfg, Doc jsonData, None)]\<rparr>"
  from a have "snd (handleProcessMessage rt nc cfg openai data w)
      = history_publish rt nc cfg (processed_event rt addReq (processed_data rt cfg openai addReq)) ?w1"
    by (simp add: handleProcessMessage_def Let_def Publish_def)
  moreover have "take (length (published ?w1))
      (published (history_publish rt nc cfg
         (processed_event rt addReq (processed_data rt cfg openai addReq)) ?w1)) = published ?w1"
    by (rule history_publish_published)
  ultimately show "take (Suc (length (published w)))
              (published (snd (handleProcessMessage rt nc cfg openai data w)))
            = published w @ [(TopicMemoryEmbed cfg, Doc jsonData, None)]"
    by simp
next
  assume a: "unmarshal_EmbeddingData vdata = (None, embeddingData)
      \<and> vs = Some store
      \<and> InsertVectors_result store (collection_name cfg) [vector_input rt embeddingData] = None"
  then show "fst (handleVectorStoreAddMessage rt nc cfg vs vdata w) = None"
    by (simp add: handleVectorStoreAddMessage_def InsertVectors_def Let_def)
  from a show "inserted (snd (handleVectorStoreAddMessage rt nc cfg vs vdata w))
            = inserted w @ [(collection_name cfg, [vector_input rt embeddingData], None)]"
    by (simp add: handleVectorStoreAddMessage_def InsertVectors_def Let_def)
next
  assume a: "unmarshal_GraphStoreStorageData gdata = (None, decoded)
      \<and> dg = Some client
      \<and> graphData = extracted_graph_data cfg openai graphCfg decoded
      \<and> (elems (Entities graphData) \<noteq> [] \<or> elems (Relationships graphData) \<noteq> [])
      \<and> Mutate_result client (mutation graphData) = None"
  then show "fst (handleGraphStoreAddMessage rt nc cfg openai dg graphCfg gdata w) = None"
    by (auto simp add: handleGraphStoreAddMessage_def Mutate_def Let_def)
  from a show "mutated (snd (handleGraphStoreAddMessage rt nc cfg openai dg graphCfg gdata w))
            = mutated w @ [(mutation graphData, None)]"
    by (auto simp add: handleGraphStoreAddMessage_def Mutate_def Let_def)
qed

theorem C7_history_failure_does_not_fail_stage_witness:
  "(let failing = Some \<lparr>Publish_result =
          (\<lambda>topic data. if topic = ''memory.history.log'' then Some ''nats publish failed'' else None)\<rparr>;
        run = handleProcessMessage example_runtime failing example_Config None
                (Doc (JObj [(''user_id'', JStr ''u1''),
                            (''messages'', JArr [JObj [(''role'', JStr ''user''),
                                                       (''content'', JStr ''hello'')]])]))
                empty_world
    in (fst run, map (\<lambda>(topic, data, err). (topic, err)) (published (snd run))))
   = (None, [(''memory.embed'', None), (''memory.history.log'', Some ''nats publish failed'')])
   \<and> (let failing = Some \<lparr>Publish_result =
          (\<lambda>topic data. if topic = ''memory.history.log'' then Some ''nats publish failed'' else None)\<rparr>;
        run = handleVectorStoreAddMessage example_runtime failing example_Config
                (Some \<lparr>InsertVectors_result = (\<lambda>collectionName vectors. None)\<rparr>)
                (Doc (JObj [(''memory_id'', JStr ''m1''), (''embedding'', JArr [JNum 0, JNum 0, JNum 0])]))
                empty_world
    in (fst run, map (\<lambda>(topic, data, err). (topic, err)) (published (snd run)),
        map (\<lambda>(collectionName, vectors, err). (collectionName, map VectorInput_ID vectors, err))
          (inserted (snd run))))
   = (None, [(''memory.history.log'', Some ''nats publish failed'')],
      [(''default_collection'', [''m1''], None)])
   \<and> (let failing = Some \<lparr>Publish_result =
          (\<lambda>topic data. if topic = ''memory.history.log'' then Some ''nats publish failed'' else None)\<rparr>;
        run = handleGraphStoreAddMessage example_runtime failing example_Config None
                (Some \<lparr>Mutate_result = (\<lambda>data. None)\<rparr>) None
                (Doc (JObj [(''memory_id'', JStr ''m1''),
                            (''entities'', JArr [JObj [(''id'', JStr ''e1''), (''type'', JStr ''Person''),
                                                       (''name'', JStr ''Bob'')]])]))
                empty_world
    in (fst run, map (\<lambda>(topic, data, err). (topic, err)) (published (snd run)),
        map (\<lambda>(data, err). (Mutation_memoryId data, err)) (mutated (snd run))))
   = (None, [(''memory.history.log'', Some ''nats publish failed'')], [(''m1'', None)])"
proof -
  let ?c = "\<lparr>Publish_result =
          (\<lambda>topic data. if topic = ''memory.history.log'' then Some ''nats publish failed'' else None)\<rparr>"
  let ?pdata = "Doc (JObj [(''user_id'', JStr ''u1''),
                            (''messages'', JArr [JObj [(''role'', JStr ''user''),
                                                       (''content'', JStr ''hello'')]])])"
  let ?req = "AddMemoryRequest_zero
     \<lparr>Add_BaseRequestInfo := BaseRequestInfo_zero\<lparr>UserID := ''u1''\<rparr>,
      Messages := Some [\<lparr>Role = ''user'', Content = ''hello'', Name = []\<rparr>]\<rparr>"
  let ?pj = "JObj [(''user_id'', JStr ''u1''),
                   (''original_messages'', JArr [JObj [(''role'', JStr ''user''),
                                                       (''content'', JStr ''hello'')]]),
                   (''processed_text'', JStr ''hello''),
                   (''memory_id'', JString (uuid_String 0))]"
  let ?vdata = "Doc (JObj [(''memory_id'', JStr ''m1''), (''embedding'', JArr [JNum 0, JNum 0, JNum 0])])"
  let ?ed = "EmbeddingData_zero\<lparr>Embedding_MemoryID := ''m1'',
               Embedding := Some [Float32 0, Float32 0, Float32 0]\<rparr>"
  let ?store = "\<lparr>InsertVectors_result = (\<lambda>collectionName vectors. None)\<rparr>"
  let ?gdata = "Doc (JObj [(''memory_id'', JStr ''m1''),
                            (''entities'', JArr [JObj [(''id'', JStr ''e1''), (''type'', JStr ''Person''),
                                                       (''name'', JStr ''Bob'')]])])"
  let ?gd = "GraphStoreStorageData_zero\<lparr>Graph_MemoryID := ''m1'',
               Entities := Some [\<lparr>Entity_ID = ''e1'', Entity_Type = ''Person'', Entity_Name = ''Bob''\<rparr>]\<rparr>"
  let ?client = "\<lparr>Mutate_result = (\<lambda>data. None)\<rparr>"
  have p: "unmarshal_AddMemoryRequest ?pdata = (None, ?req)
      \<and> marshal_ProcessedMemoryData (processed_data example_runtime example_Config None ?req) = Inr ?pj
      \<and> Some ?c = Some ?c \<and> Publish_result ?c (TopicMemoryEmbed example_Config) (Doc ?pj) = None"
    by (simp add: unmarshal_AddMemoryRequest_def AddMemoryRequest_member_def AddMemoryRequest_zero_def
          marshal_ProcessedMemoryData_def processed_data_def processed_text_def extracted_facts_def
          example_runtime_def example_Config_def wire_defs JString_def coerce_utf8_ascii byte_def)
  have v: "unmarshal_EmbeddingData ?vdata = (None, ?ed) \<and> Some ?store = Some ?store
      \<and> InsertVectors_result ?store (collection_name example_Config)
            [vector_input example_runtime ?ed] = None"
    by (simp add: unmarshal_EmbeddingData_def EmbeddingData_member_def EmbeddingData_zero_def wire_defs)
  have g: "unmarshal_GraphStoreStorageData ?gdata = (None, ?gd) \<and> Some ?client = Some ?client
      \<and> ?gd = extracted_graph_data example_Config None None ?gd
      \<and> (elems (Entities ?gd) \<noteq> [] \<or> elems (Relationships ?gd) \<noteq> [])
      \<and> Mutate_result ?client (mutation ?gd) = None"
    by (simp add: unmarshal_GraphStoreStorageData_def GraphStoreStorageData_member_def
          GraphStoreStorageData_zero_def extracted_graph_data_def wire_defs)
  note inst = C7_history_failure_does_not_fail_stage
    [where data = ?pdata and addReq = ?req and rt = example_runtime and cfg = example_Config
       and openai = None and jsonData = ?pj and nc = "Some ?c" and c = ?c and w = empty_world
       and vdata = ?vdata and embeddingData = ?ed and vs = "Some ?store" and store = ?store
       and gdata = ?gdata and decoded = ?gd and dg = "Some ?client" and client = ?client
       and graphData = ?gd and graphCfg = None]
  have pub: "map (\<lambda>(topic, data, err). (topic, err))
      (published (snd (handleProcessMessage example_runtime (Some ?c) example_Config None ?pdata empty_world)))
      = [(''memory.embed'', None), (''memory.history.log'', Some ''nats publish failed'')]"
    using p
    by (simp add: handleProcessMessage_def Let_def Publish_def history_publish_def
          marshal_MemoryEvent_def processed_event_def example_runtime_def example_Config_def
          empty_world_def MemoryEvent_zero_def omitempty_map_def elems_def go_int_def)
  have vpub: "map (\<lambda>(topic, data, err). (topic, err))
      (published (snd (handleVectorStoreAddMessage example_runtime (Some ?c) example_Config
         (Some ?store) ?vdata empty_world)))
      = [(''memory.history.log'', Some ''nats publish failed'')]"
    using v
    by (simp add: handleVectorStoreAddMessage_def Let_def Publish_def InsertVectors_def
          history_publish_def marshal_MemoryEvent_def vector_event_def example_runtime_def
          example_Config_def empty_world_def MemoryEvent_zero_def omitempty_map_def elems_def
          go_int_def JString_def)
  have gpub: "map (\<lambda>(topic, data, err). (topic, err))
      (published (snd (handleGraphStoreAddMessage example_runtime (Some ?c) example_Config None
         (Some ?client) None ?gdata empty_world)))
      = [(''memory.history.log'', Some ''nats publish failed'')]"
    using g
    by (simp add: handleGraphStoreAddMessage_def Let_def Publish_def Mutate_def
          history_publish_def marshal_MemoryEvent_def graph_event_def example_runtime_def
          example_Config_def empty_world_def MemoryEvent_zero_def omitempty_map_def elems_def
          go_int_def JString_def extracted_graph_data_def GraphStoreStorageData_zero_def)
  show ?thesis
    using inst p v g pub vpub gpub
    by (simp add: Let_def empty_world_def vector_input_def mutation_def collection_name_def
          example_Config_def EmbeddingData_zero_def GraphStoreStorageData_zero_def)
qed

subsection \<open>The ingress service\<close>

lemma Message_fields_Nil: "Message_fields ns m = [] \<longleftrightarrow> well_formed m"
  by (auto simp add: Message_fields_def required_oneof_def well_formed_def)

lemma dive_Messages_Nil: "dive_Messages i ms = [] \<longleftrightarrow> list_all well_formed ms"
  by (induction ms arbitrary: i) (simp_all add: Message_fields_Nil)

lemma AddMemoryRequest_Validate_None: "AddMemoryRequest_Validate r = None \<longleftrightarrow> valid_request r"
proof (cases "Messages r")
  case None
  then show ?thesis
    by (simp add: AddMemoryRequest_Validate_def AddMemoryRequest_fields_def valid_request_def elems_def)
next
  case (Some ms)
  then show ?thesis
    by (cases ms)
       (simp_all add: AddMemoryRequest_Validate_def AddMemoryRequest_fields_def valid_request_def
          elems_def dive_Messages_Nil Message_fields_Nil)
qed

lemma uuid_String_not_empty: "uuid_String u \<noteq> []"
  by (simp add: uuid_String_def)

lemma decode_members_append:
  "decode_members step xs s = (None, s') \<Longrightarrow>
     decode_members step (xs @ ys) s = decode_members step ys s'"
  by (induction xs arbitrary: s) (auto split: prod.splits option.splits)

lemma decode_Message_json:
  assumes "utf8_message m"
  shows "Message_elem struct path (Message_json m) Message_zero = (None, m)"
  using assms
  by (cases m)
     (simp add: Message_elem_def Message_json_def Message_member_def Message_zero_def omitempty_def
        is_key_def lower_def string_member_def JString_def utf8_message_def valid_utf8_def)

lemma decode_Messages:
  "list_all utf8_message ms \<Longrightarrow>
     decode_elems (Message_elem struct path) Message_zero (map Message_json ms) = (None, ms)"
  by (induction ms) (simp_all add: decode_Message_json)

lemma decode_messages_member:
  assumes "list_all utf8_message (elems ms)"
  shows "AddMemoryRequest_member ''messages'' (slice_json Message_json ms) r
           = (None, r\<lparr>Messages := ms\<rparr>)"
  using assms
  by (cases ms)
     (simp_all add: AddMemoryRequest_member_def BaseRequestInfo_member_def Messages_member_def
        slice_member_def slice_json_def is_key_def lower_def elems_def decode_Messages)

lemma decode_infer_member:
  "AddMemoryRequest_member ''infer'' (JBool b) r = (None, r\<lparr>Infer := b\<rparr>)"
  by (simp add: AddMemoryRequest_member_def BaseRequestInfo_member_def is_key_def lower_def
        bool_member_def)

lemma decode_user_id:
  assumes "valid_utf8 x" and "UserID (Add_BaseRequestInfo r) = []"
  shows "decode_members AddMemoryRequest_member (omitempty ''user_id'' x) r
           = (None, r\<lparr>Add_BaseRequestInfo := (Add_BaseRequestInfo r)\<lparr>UserID := x\<rparr>\<rparr>)"
  using assms
  by (cases r, cases "Add_BaseRequestInfo r")
     (simp add: omitempty_def AddMemoryRequest_member_def BaseRequestInfo_member_def is_key_def
        lower_def string_member_def JString_def valid_utf8_def)

lemma decode_agent_id:
  assumes "valid_utf8 x" and "AgentID (Add_BaseRequestInfo r) = []"
  shows "decode_members AddMemoryRequest_member (omitempty ''agent_id'' x) r
           = (None, r\<lparr>Add_BaseRequestInfo := (Add_BaseRequestInfo r)\<lparr>AgentID := x\<rparr>\<rparr>)"
  using assms
  by (cases r, cases "Add_BaseRequestInfo r")
     (simp add: omitempty_def AddMemoryRequest_member_def BaseRequestInfo_member_def is_key_def
        lower_def string_member_def JString_def valid_utf8_def)

lemma decode_run_id:
  assumes "valid_utf8 x" and "RunID (Add_BaseRequestInfo r) = []"
  shows "decode_members AddMemoryRequest_member (omitempty ''run_id'' x) r
           = (None, r\<lparr>Add_BaseRequestInfo := (Add_BaseRequestInfo r)\<lparr>RunID := x\<rparr>\<rparr>)"
  using assms
  by (cases r, cases "Add_BaseRequestInfo r")
     (simp add: omitempty_def AddMemoryRequest_member_def BaseRequestInfo_member_def is_key_def
        lower_def string_member_def JString_def valid_utf8_def)

lemma decode_actor_id:
  assumes "valid_utf8 x" and "ActorID (Add_BaseRequestInfo r) = []"
  shows "decode_members AddMemoryRequest_member (omitempty ''actor_id'' x) r
           = (None, r\<lparr>Add_BaseRequestInfo := (Add_BaseRequestInfo r)\<lparr>ActorID := x\<rparr>\<rparr>)"
  using assms
  by (cases r, cases "Add_BaseRequestInfo r")
     (simp add: omitempty_def AddMemoryRequest_member_def BaseRequestInfo_member_def is_key_def
        lower_def string_member_def JString_def valid_utf8_def)

lemma decode_memory_type:
  assumes "valid_utf8 x" and "MemoryType r = []"
  shows "decode_members AddMemoryRequest_member (omitempty ''memory_type'' x) r
           = (None, r\<lparr>MemoryType := x\<rparr>)"
  using assms
  by (cases r)
     (simp add: omitempty_def AddMemoryRequest_member_def BaseRequestInfo_member_def is_key_def
        lower_def string_member_def JString_def valid_utf8_def)

lemma decode_prompt:
  assumes "valid_utf8 x" and "Prompt r = []"
  shows "decode_members AddMemoryRequest_member (omitempty ''prompt'' x) r
           = (None, r\<lparr>Prompt := x\<rparr>)"
  using assms
  by (cases r)
     (simp add: omitempty_def AddMemoryRequest_member_def BaseRequestInfo_member_def is_key_def
        lower_def string_member_def JString_def valid_utf8_def)

lemma decode_metadata:
  assumes "normal_map m" and "m \<noteq> Some []" and "Metadata (Add_BaseRequestInfo r) = None"
    and "omitempty_map ''metadata'' m = Inr md"
  shows "decode_members AddMemoryRequest_member md r
           = (None, r\<lparr>Add_BaseRequestInfo := (Add_BaseRequestInfo r)\<lparr>Metadata := m\<rparr>\<rparr>)"
proof (cases m)
  case None
  with assms(3,4) show ?thesis
    by (cases r, cases "Add_BaseRequestInfo r") (simp add: omitempty_map_def elems_def)
next
  case (Some kvs)
  with assms(1) have "normal_members kvs"
    by (simp add: normal_map_def)
  from to_json_roundtrip(3) [OF this] obtain ms where
    ms: "to_json_members kvs = Inr ms" "map (\<lambda>(k, x). (k, of_json x)) ms = kvs"
    by blast
  with Some assms(2,4) have md: "md = [(''metadata'', JObj ms)]"
    by (simp add: omitempty_map_def elems_def)
  show ?thesis
    using assms(3) ms(2) Some
    by (cases r, cases "Add_BaseRequestInfo r")
       (simp add: md AddMemoryRequest_member_def BaseRequestInfo_member_def is_key_def lower_def
          map_value_def)
qed

lemma normal_map_encodes:
  assumes "normal_map m"
  shows "\<exists>md. omitempty_map ''metadata'' m = Inr md"
proof (cases m)
  case None
  then show ?thesis
    by (simp add: omitempty_map_def elems_def)
next
  case (Some kvs)
  with assms have "normal_members kvs"
    by (simp add: normal_map_def)
  from to_json_roundtrip(3) [OF this] obtain ms where "to_json_members kvs = Inr ms"
    by blast
  with Some show ?thesis
    by (simp add: omitempty_map_def elems_def)
qed

lemma AddMemoryRequest_roundtrip:
  assumes "wire_exact req" and "marshal_AddMemoryRequest req = Inr j"
  shows "unmarshal_AddMemoryRequest (Doc j) = (None, req)"
proof -
  let ?b = "Add_BaseRequestInfo req"
  let ?z = AddMemoryRequest_zero
  from assms(2) obtain md where md: "omitempty_map ''metadata'' (Metadata ?b) = Inr md"
    by (auto simp add: marshal_AddMemoryRequest_def BaseRequestInfo_members_def split: sum.splits)
  with assms(2) have j: "j = JObj (omitempty ''user_id'' (UserID ?b) @ omitempty ''agent_id'' (AgentID ?b)
        @ omitempty ''run_id'' (RunID ?b) @ omitempty ''actor_id'' (ActorID ?b) @ md
        @ [(''messages'', slice_json Message_json (Messages req)), (''infer'', JBool (Infer req))]
        @ omitempty ''memory_type'' (MemoryType req) @ omitempty ''prompt'' (Prompt req))"
    by (auto simp add: marshal_AddMemoryRequest_def BaseRequestInfo_members_def)
  define r1 where "r1 = ?z\<lparr>Add_BaseRequestInfo := (Add_BaseRequestInfo ?z)\<lparr>UserID := UserID ?b\<rparr>\<rparr>"
  define r2 where "r2 = r1\<lparr>Add_BaseRequestInfo := (Add_BaseRequestInfo r1)\<lparr>AgentID := AgentID ?b\<rparr>\<rparr>"
  define r3 where "r3 = r2\<lparr>Add_BaseRequestInfo := (Add_BaseRequestInfo r2)\<lparr>RunID := RunID ?b\<rparr>\<rparr>"
  define r4 where "r4 = r3\<lparr>Add_BaseRequestInfo := (Add_BaseRequestInfo r3)\<lparr>ActorID := ActorID ?b\<rparr>\<rparr>"
  define r5 where "r5 = r4\<lparr>Add_BaseRequestInfo := (Add_BaseRequestInfo r4)\<lparr>Metadata := Metadata ?b\<rparr>\<rparr>"
  define r6 where "r6 = r5\<lparr>Messages := Messages req, Infer := Infer req\<rparr>"
  define r7 where "r7 = r6\<lparr>MemoryType := MemoryType req\<rparr>"
  define r8 where "r8 = r7\<lparr>Prompt := Prompt req\<rparr>"
  note zero = AddMemoryRequest_zero_def BaseRequestInfo_zero_def
  have s1: "decode_members AddMemoryRequest_member (omitempty ''user_id'' (UserID ?b)) ?z = (None, r1)"
    unfolding r1_def using assms(1) by (intro decode_user_id) (simp_all add: wire_exact_def zero)
  have s2: "decode_members AddMemoryRequest_member (omitempty ''agent_id'' (AgentID ?b)) r1 = (None, r2)"
    unfolding r2_def using assms(1) by (intro decode_agent_id) (simp_all add: wire_exact_def zero r1_def)
  have s3: "decode_members AddMemoryRequest_member (omitempty ''run_id'' (RunID ?b)) r2 = (None, r3)"
    unfolding r3_def using assms(1)
    by (intro decode_run_id) (simp_all add: wire_exact_def zero r1_def r2_def)
  have s4: "decode_members AddMemoryRequest_member (omitempty ''actor_id'' (ActorID ?b)) r3 = (None, r4)"
    unfolding r4_def using assms(1)
    by (intro decode_actor_id) (simp_all add: wire_exact_def zero r1_def r2_def r3_def)
  have s5: "decode_members AddMemoryRequest_member md r4 = (None, r5)"
    unfolding r5_def using assms(1) md
    by (intro decode_metadata) (simp_all add: wire_exact_def zero r1_def r2_def r3_def r4_def)
  have s6: "decode_members AddMemoryRequest_member
              [(''messages'', slice_json Message_json (Messages req)), (''infer'', JBool (Infer req))] r5
            = (None, r6)"
    using assms(1) by (simp add: decode_messages_member decode_infer_member wire_exact_def r6_def)
  have s7: "decode_members AddMemoryRequest_member (omitempty ''memory_type'' (MemoryType req)) r6
            = (None, r7)"
    unfolding r7_def using assms(1)
    by (intro decode_memory_type)
       (simp_all add: wire_exact_def zero r1_def r2_def r3_def r4_def r5_def r6_def)
  have s8: "decode_members AddMemoryRequest_member (omitempty ''prompt'' (Prompt req)) r7 = (None, r8)"
    unfolding r8_def using assms(1)
    by (intro decode_prompt)
       (simp_all add: wire_exact_def zero r1_def r2_def r3_def r4_def r5_def r6_def r7_def)
  have "r8 = req"
    by (cases req, cases "Add_BaseRequestInfo req")
       (simp add: zero r1_def r2_def r3_def r4_def r5_def r6_def r7_def r8_def)
  moreover have "unmarshal_AddMemoryRequest (Doc j) = (None, r8)"
    unfolding unmarshal_AddMemoryRequest_def unmarshal_struct_def j
    by (simp add: checkValid_def decode_members_append [OF s1] decode_members_append [OF s2]
          decode_members_append [OF s3] decode_members_append [OF s4]
          decode_members_append [OF s5] decode_members_append [OF s6]
          decode_members_append [OF s7] s8 del: append.simps)
  ultimately show ?thesis
    by simp
qed

lemma wire_exact_encodes:
  assumes "wire_exact req"
  obtains j where "marshal_AddMemoryRequest req = Inr j"
proof -
  from assms have "normal_map (Metadata (Add_BaseRequestInfo req))"
    by (simp add: wire_exact_def)
  from normal_map_encodes [OF this] obtain md where
    "omitempty_map ''metadata'' (Metadata (Add_BaseRequestInfo req)) = Inr md" ..
  then show ?thesis
    using that by (simp add: marshal_AddMemoryRequest_def BaseRequestInfo_members_def)
qed

text \<open>
  Claim C1, as stated: for a valid request \<open>Add\<close> publishes the message and returns a
  non-empty identifier. With a NATS client whose \<open>Publish\<close> fails, \<open>Add\<close> has made its
  one publish call for this valid request and returns an error instead of an identifier.
\<close>

theorem C1_counterexample:
  "valid_request
     (AddMemoryRequest_zero\<lparr>Messages := Some [\<lparr>Role = ''user'', Content = ''hello'', Name = []\<rparr>]\<rparr>)
   \<and> Add example_runtime (Some \<lparr>Publish_result = (\<lambda>topic data. Some ''nats: connection closed'')\<rparr>)
        example_Config
        (AddMemoryRequest_zero\<lparr>Messages := Some [\<lparr>Role = ''user'', Content = ''hello'', Name = []\<rparr>]\<rparr>)
        empty_world
     = (Inl ''failed to publish to NATS topic memory.add.received: nats: connection closed'',
        empty_world\<lparr>published :=
          [(''memory.add.received'',
            Doc (JObj [(''messages'', JArr [JObj [(''role'', JStr ''user''),
                                                 (''content'', JStr ''hello'')]]),
                       (''infer'', JBool False)]),
            Some ''nats: connection closed'')]\<rparr>)"
proof -
  let ?req = "AddMemoryRequest_zero
     \<lparr>Messages := Some [\<lparr>Role = ''user'', Content = ''hello'', Name = []\<rparr>]\<rparr>"
  have valid: "valid_request ?req"
    by (simp add: valid_request_def well_formed_def AddMemoryRequest_zero_def elems_def)
  then have accepted: "AddMemoryRequest_Validate ?req = None"
    by (simp only: AddMemoryRequest_Validate_None)
  have encoded: "marshal_AddMemoryRequest ?req
      = Inr (JObj [(''messages'', JArr [JObj [(''role'', JStr ''user''),
                                              (''content'', JStr ''hello'')]]),
                   (''infer'', JBool False)])"
    by (simp add: marshal_AddMemoryRequest_def AddMemoryRequest_zero_def wire_defs JString_def
          coerce_utf8_ascii byte_def)
  show ?thesis
    using valid
    by (simp add: Add_def accepted encoded Publish_def Let_def example_Config_def empty_world_def)
qed

text \<open>
  Claim C1. A request is accepted exactly when it is valid: at least one message, each with a
  role among \<open>user\<close>, \<open>assistant\<close>, \<open>system\<close> and a non-empty content. For a valid
  request that encodes, a service with a NATS client makes exactly one publish call, on the
  RECEIVED topic, with the encoded request; when that call succeeds \<open>Add\<close> returns a
  non-empty identifier, and decoding the published document gives the request back when the
  request is wire-exact; when that call fails \<open>Add\<close> returns the failure. A service without
  NATS client publishes nothing and returns the identifier. A valid request that does not
  encode, and a request that is not valid, make \<open>Add\<close> return an error with nothing
  published. Every wire-exact request encodes.
\<close>

theorem C1_Add_publishes_valid_request:
  "(valid_request req \<and> marshal_AddMemoryRequest req = Inr jsonData \<and> nc = Some c
      \<and> Publish_result c (TopicMemoryAddReceived cfg) (Doc jsonData) = None
    \<longrightarrow> Add rt nc cfg req w
          = (Inr (uuid_String (uuid_New rt 0)),
             w\<lparr>published := published w @ [(TopicMemoryAddReceived cfg, Doc jsonData, None)]\<rparr>)
        \<and> uuid_String (uuid_New rt 0) \<noteq> []
        \<and> (wire_exact req \<longrightarrow> unmarshal_AddMemoryRequest (Doc jsonData) = (None, req)))
   \<and> (valid_request req \<and> marshal_AddMemoryRequest req = Inr jsonData \<and> nc = Some c
      \<and> Publish_result c (TopicMemoryAddReceived cfg) (Doc jsonData) = Some err
    \<longrightarrow> Add rt nc cfg req w
          = (Inl (''failed to publish to NATS topic '' @ TopicMemoryAddReceived cfg @ '': '' @ err),
             w\<lparr>published := published w @ [(TopicMemoryAddReceived cfg, Doc jsonData, Some err)]\<rparr>))
   \<and> (valid_request req \<and> marshal_AddMemoryRequest req = Inr jsonData \<and> nc = None
    \<longrightarrow> Add rt nc cfg req w = (Inr (uuid_String (uuid_New rt 0)), w))
   \<and> (valid_request req \<and> marshal_AddMemoryRequest req = Inl err
    \<longrightarrow> Add rt nc cfg req w = (Inl (''failed to marshal AddMemoryRequest: '' @ err), w))
   \<and> (\<not> valid_request req
    \<longrightarrow> (\<exists>err. Add rt nc cfg req w = (Inl (''invalid AddMemoryRequest: '' @ err), w)))
   \<and> (wire_exact req \<longrightarrow> (\<exists>j. marshal_AddMemoryRequest req = Inr j))"
proof (intro conjI impI)
  assume a: "valid_request req \<and> marshal_AddMemoryRequest req = Inr jsonData \<and> nc = Some c
      \<and> Publish_result c (TopicMemoryAddReceived cfg) (Doc jsonData) = None"
  then have "AddMemoryRequest_Validate req = None"
    by (simp add: AddMemoryRequest_Validate_None)
  with a show "Add rt nc cfg req w
          = (Inr (uuid_String (uuid_New rt 0)),
             w\<lparr>published := published w @ [(TopicMemoryAddReceived cfg, Doc jsonData, None)]\<rparr>)"
    by (simp add: Add_def Publish_def Let_def)
  show "uuid_String (uuid_New rt 0) \<noteq> []"
    by (rule uuid_String_not_empty)
  assume "wire_exact req"
  with a show "unmarshal_AddMemoryRequest (Doc jsonData) = (None, req)"
    by (simp add: AddMemoryRequest_roundtrip)
next
  assume a: "valid_request req \<and> marshal_AddMemoryRequest req = Inr jsonData \<and> nc = Some c
      \<and> Publish_result c (TopicMemoryAddReceived cfg) (Doc jsonData) = Some err"
  then have "AddMemoryRequest_Validate req = None"
    by (simp add: AddMemoryRequest_Validate_None)
  with a show "Add rt nc cfg req w
          = (Inl (''failed to publish to NATS topic '' @ TopicMemoryAddReceived cfg @ '': '' @ err),
             w\<lparr>published := published w @ [(TopicMemoryAddReceived cfg, Doc jsonData, Some err)]\<rparr>)"
    by (simp add: Add_def Publish_def Let_def)
next
  assume a: "valid_request req \<and> marshal_AddMemoryRequest req = Inr jsonData \<and> nc = None"
  then have "AddMemoryRequest_Validate req = None"
    by (simp add: AddMemoryRequest_Validate_None)
  with a show "Add rt nc cfg req w = (Inr (uuid_String (uuid_New rt 0)), w)"
    by (simp add: Add_def Let_def)
next
  assume a: "valid_request req \<and> marshal_AddMemoryRequest req = Inl err"
  then have "AddMemoryRequest_Validate req = None"
    by (simp add: AddMemoryRequest_Validate_None)
  with a show "Add rt nc cfg req w = (Inl (''failed to marshal AddMemoryRequest: '' @ err), w)"
    by (simp add: Add_def Let_def)
next
  assume "\<not> valid_request req"
  then have "AddMemoryRequest_Validate req \<noteq> None"
    by (simp add: AddMemoryRequest_Validate_None)
  then obtain e where "AddMemoryRequest_Validate req = Some e"
    by (cases "AddMemoryRequest_Validate req") simp_all
  then show "\<exists>err. Add rt nc cfg req w = (Inl (''invalid AddMemoryRequest: '' @ err), w)"
    by (simp add: Add_def)
next
  assume "wire_exact req"
  then show "\<exists>j. marshal_AddMemoryRequest req = Inr j"
    by (rule wire_exact_encodes) simp
qed

theorem C1_Add_publishes_valid_request_witness:
  "Add example_runtime (Some \<lparr>Publish_result = (\<lambda>topic data. None)\<rparr>) example_Config
     (AddMemoryRequest_zero
        \<lparr>Add_BaseRequestInfo := BaseRequestInfo_zero\<lparr>UserID := ''u1''\<rparr>,
         Messages := Some [\<lparr>Role = ''user'', Content = ''hello'', Name = []\<rparr>,
                           \<lparr>Role = ''assistant'', Content = ''hi'', Name = ''bot''\<rparr>],
         Infer := True\<rparr>)
     empty_world
   = (Inr (uuid_String 0),
      empty_world\<lparr>published :=
        [(''memory.add.received'',
          Doc (JObj [(''user_id'', JStr ''u1''),
                     (''messages'',
                      JArr [JObj [(''role'', JStr ''user''), (''content'', JStr ''hello'')],
                            JObj [(''role'', JStr ''assistant''), (''content'', JStr ''hi''),
                                  (''name'', JStr ''bot'')]]),
                     (''infer'', JBool True)]),
          None)]\<rparr>)
   \<and> unmarshal_AddMemoryRequest
       (Doc (JObj [(''user_id'', JStr ''u1''),
                   (''messages'',
                    JArr [JObj [(''role'', JStr ''user''), (''content'', JStr ''hello'')],
                          JObj [(''role'', JStr ''assistant''), (''content'', JStr ''hi''),
                                (''name'', JStr ''bot'')]]),
                   (''infer'', JBool True)]))
     = (None,
        AddMemoryRequest_zero
          \<lparr>Add_BaseRequestInfo := BaseRequestInfo_zero\<lparr>UserID := ''u1''\<rparr>,
           Messages := Some [\<lparr>Role = ''user'', Content = ''hello'', Name = []\<rparr>,
                             \<lparr>Role = ''assistant'', Content = ''hi'', Name = ''bot''\<rparr>],
           Infer := True\<rparr>)
   \<and> (\<exists>err. Add example_runtime (Some \<lparr>Publish_result = (\<lambda>topic data. None)\<rparr>) example_Config
               (AddMemoryRequest_zero
                  \<lparr>Messages := Some [\<lparr>Role = ''tool'', Content = ''hello'', Name = []\<rparr>]\<rparr>)
               empty_world
             = (Inl (''invalid AddMemoryRequest: '' @ err), empty_world))"
proof -
  let ?c = "\<lparr>Publish_result = (\<lambda>topic data. None)\<rparr>"
  let ?req = "AddMemoryRequest_zero
        \<lparr>Add_BaseRequestInfo := BaseRequestInfo_zero\<lparr>UserID := ''u1''\<rparr>,
         Messages := Some [\<lparr>Role = ''user'', Content = ''hello'', Name = []\<rparr>,
                           \<lparr>Role = ''assistant'', Content = ''hi'', Name = ''bot''\<rparr>],
         Infer := True\<rparr>"
  let ?bad = "AddMemoryRequest_zero
                  \<lparr>Messages := Some [\<lparr>Role = ''tool'', Content = ''hello'', Name = []\<rparr>]\<rparr>"
  let ?j = "JObj [(''user_id'', JStr ''u1''),
                     (''messages'',
                      JArr [JObj [(''role'', JStr ''user''), (''content'', JStr ''hello'')],
                            JObj [(''role'', JStr ''assistant''), (''content'', JStr ''hi''),
                                  (''name'', JStr ''bot'')]]),
                     (''infer'', JBool True)]"
  have valid: "valid_request ?req" and invalid: "\<not> valid_request ?bad"
    by (simp_all add: valid_request_def well_formed_def AddMemoryRequest_zero_def elems_def)
  have encoded: "marshal_AddMemoryRequest ?req = Inr ?j"
    by (simp add: marshal_AddMemoryRequest_def AddMemoryRequest_zero_def wire_defs JString_def
          coerce_utf8_ascii byte_def)
  have exact: "wire_exact ?req"
    by (simp add: wire_exact_def utf8_message_def normal_map_def AddMemoryRequest_zero_def
          BaseRequestInfo_zero_def elems_def valid_utf8_ascii byte_def)
  show ?thesis
    using C1_Add_publishes_valid_request
            [where req = ?req and jsonData = ?j and nc = "Some ?c" and c = ?c
               and cfg = example_Config and rt = example_runtime and w = empty_world]
          C1_Add_publishes_valid_request
            [where req = ?bad and nc = "Some ?c" and cfg = example_Config
               and rt = example_runtime and w = empty_world]
          valid invalid encoded exact
    by (simp add: example_Config_def example_runtime_def empty_world_def)
qed

end
